theory Spec2Isabelle
  imports Main
begin

section \<open>JSON values as the Python code handles them\<close>

text \<open>
  The script exchanges JSON documents with the tracker and handles them as Python
  values: \<open>None\<close>, \<open>bool\<close>, \<open>int\<close>, \<open>str\<close>, \<open>list\<close> and \<open>dict\<close>. A dict is an
  association list in insertion order, read with \<open>map_of\<close>; its keys are distinct, as
  those of a Python dict are. JSON numbers are integers here; a \<open>str\<close> is the list of
  its characters.
\<close>

datatype json =
    JNull
  | JBool bool
  | JInt int
  | JStr string
  | JArr "json list"
  | JObj "(string \<times> json) list"

text \<open>The exceptions the script can raise and never catches, and the ways a run stops.\<close>

datatype exc = KeyError | AttributeError | TypeError

datatype abort = SysExit nat | Uncaught exc

text \<open>Truth value of a Python object, as \<open>not x\<close> and \<open>x and y\<close> test it.\<close>

fun truthy :: "json \<Rightarrow> bool" where
  "truthy JNull = False"
| "truthy (JBool b) = b"
| "truthy (JInt n) = (n \<noteq> 0)"
| "truthy (JStr s) = (s \<noteq> [])"
| "truthy (JArr xs) = (xs \<noteq> [])"
| "truthy (JObj kvs) = (kvs \<noteq> [])"

text \<open>
  Python's \<open>==\<close>: a bool is the integer 0 or 1, lists compare element by element, dicts
  compare by key whatever the order.
\<close>

function py_eq :: "json \<Rightarrow> json \<Rightarrow> bool" where
  "py_eq JNull y = (y = JNull)"
| "py_eq (JBool a) y =
     (case y of JBool b \<Rightarrow> a = b | JInt n \<Rightarrow> (if a then 1 else 0) = n | _ \<Rightarrow> False)"
| "py_eq (JInt m) y =
     (case y of JBool b \<Rightarrow> m = (if b then 1 else 0) | JInt n \<Rightarrow> m = n | _ \<Rightarrow> False)"
| "py_eq (JStr s) y = (y = JStr s)"
| "py_eq (JArr xs) y =
     (case y of
        JArr ys \<Rightarrow> length xs = length ys \<and> (\<forall>i \<in> set [0 ..< length xs]. py_eq (xs ! i) (ys ! i))
      | _ \<Rightarrow> False)"
| "py_eq (JObj a) y =
     (case y of
        JObj b \<Rightarrow> length a = length b \<and>
          (\<forall>p \<in> set a. case map_of b (fst p) of None \<Rightarrow> False | Some w \<Rightarrow> py_eq (snd p) w)
      | _ \<Rightarrow> False)"
  by pat_completeness auto

lemma size_mem_json: "x \<in> set xs \<Longrightarrow> size (x::json) < Suc (size_list size xs)"
  by (induction xs) auto

lemma size_nth_json: "i < length xs \<Longrightarrow> size ((xs::json list) ! i) < Suc (size_list size xs)"
  by (simp add: size_mem_json)

lemma size_snd_json: "p \<in> set a \<Longrightarrow> size (snd p) < Suc (size_list (size_prod (\<lambda>_. 0) size) a)"
  by (induction a) auto

termination py_eq
  apply (relation "measure (\<lambda>(x, y). size x)")
    apply simp
  subgoal for xs y ys i
    using size_nth_json [of i xs] by simp
  subgoal for a y b p w
    using size_snd_json [of p a] by simp
  done

text \<open>\<open>x in xs\<close> for a list \<open>xs\<close>.\<close>

definition py_in :: "json \<Rightarrow> json list \<Rightarrow> bool" where
  "py_in x xs = list_ex (\<lambda>y. py_eq y x) xs"

text \<open>\<open>p in s\<close> for two strings: \<open>p\<close> occurs in \<open>s\<close>.\<close>

fun py_str_contains :: "string \<Rightarrow> string \<Rightarrow> bool" where
  "py_str_contains p [] = (p = [])"
| "py_str_contains p (c # cs) = (take (length p) (c # cs) = p \<or> py_str_contains p cs)"

text \<open>\<open>k in x\<close> for a string \<open>k\<close> and any value \<open>x\<close>.\<close>

fun py_contains :: "string \<Rightarrow> json \<Rightarrow> exc + bool" where
  "py_contains k (JObj kvs) = Inr (map_of kvs k \<noteq> None)"
| "py_contains k (JArr xs) = Inr (py_in (JStr k) xs)"
| "py_contains k (JStr s) = Inr (py_str_contains k s)"
| "py_contains k _ = Inl TypeError"

text \<open>\<open>x[k]\<close> for a string \<open>k\<close>.\<close>

fun py_subscript :: "json \<Rightarrow> string \<Rightarrow> exc + json" where
  "py_subscript (JObj kvs) k = (case map_of kvs k of None \<Rightarrow> Inl KeyError | Some v \<Rightarrow> Inr v)"
| "py_subscript _ k = Inl TypeError"

text \<open>\<open>x.get(k, d)\<close>: only a dict has the method.\<close>

fun py_get :: "json \<Rightarrow> string \<Rightarrow> json \<Rightarrow> exc + json" where
  "py_get (JObj kvs) k d = Inr (case map_of kvs k of None \<Rightarrow> d | Some v \<Rightarrow> v)"
| "py_get _ k d = Inl AttributeError"

text \<open>\<open>len(x)\<close> and the elements \<open>for v in x\<close> visits.\<close>

fun py_len :: "json \<Rightarrow> exc + nat" where
  "py_len (JArr xs) = Inr (length xs)"
| "py_len (JObj kvs) = Inr (length kvs)"
| "py_len (JStr s) = Inr (length s)"
| "py_len _ = Inl TypeError"

fun py_iter :: "json \<Rightarrow> exc + json list" where
  "py_iter (JArr xs) = Inr xs"
| "py_iter (JObj kvs) = Inr (map (\<lambda>p. JStr (fst p)) kvs)"
| "py_iter (JStr s) = Inr (map (\<lambda>c. JStr [c]) s)"
| "py_iter _ = Inl TypeError"

section \<open>Requests, replies and the trace of a run\<close>

datatype http_method = GET | POST | PUT | OtherMethod string

text \<open>
  A URL is the base URL followed by one of the four paths the script formats. The issue
  path keeps the value the f-string formats into it.
\<close>

datatype path =
    MyselfPath
  | VersionPath
  | SearchPath
  | IssuePath json

datatype url = Url (url_base: string) (url_path: path)

record request =
  req_method :: http_method
  req_url :: url
  req_auth :: "string \<times> string"
  req_headers :: "(string \<times> string) list"
  req_params :: "(string \<times> json) list option"
  req_json :: "json option"

text \<open>
  What a request comes back with. \<open>Failed msg resp\<close>: the \<open>requests\<close> library raised a
  \<open>RequestException\<close> (no connection, a 4xx or 5xx status at \<open>raise_for_status\<close>, a
  body that does not decode), \<open>msg\<close> its text and \<open>resp\<close> the status code and body of
  its response when it has one. \<open>NoContent\<close>: status 204 or an empty body.
  \<open>Content v\<close>: the decoded body.
\<close>

datatype reply =
    Failed string "(nat \<times> string) option"
  | NoContent
  | Content json

datatype message =
    ErrCredentials
  | ErrMethod string
  | ErrRequest string
  | ErrStatus nat
  | ErrBody string
  | Starting
  | Creating string string
  | Created json
  | ErrReleaseId
  | Found nat string string
  | Added json
  | AlreadyHas json
  | Completed
  | Summary string nat

datatype event = Http request reply | Print message

text \<open>The tracker answers a request knowing the requests sent before it.\<close>

type_synonym server = "request list \<Rightarrow> request \<Rightarrow> reply"

type_synonym 'a result = "(abort + 'a) \<times> event list"

fun requests_of :: "event list \<Rightarrow> request list" where
  "requests_of [] = []"
| "requests_of (Http r rep # es) = r # requests_of es"
| "requests_of (Print m # es) = requests_of es"

fun exit_code :: "abort + 'a \<Rightarrow> nat" where
  "exit_code (Inr v) = 0"
| "exit_code (Inl (SysExit n)) = n"
| "exit_code (Inl (Uncaught e)) = 1"

section \<open>JiraReleaseCreator\<close>

record config =
  release_name :: string
  project_name :: string
  ticket_status :: string
  jira_base_url :: string
  jira_username :: string
  jira_api_token :: string

text \<open>\<open>__init__\<close>: the environment is a map from variable names to values.\<close>

definition init :: "string \<Rightarrow> string \<Rightarrow> string \<Rightarrow> (string \<rightharpoonup> string) \<Rightarrow> event list \<Rightarrow> config result" where
  "init rname pname status env t =
     (let base = (case env ''JIRA_BASE_URL'' of
                    None \<Rightarrow> ''https://your-jira-instance.atlassian.net''
                  | Some u \<Rightarrow> u)
      in case (env ''JIRA_USERNAME'', env ''JIRA_API_TOKEN'') of
           (Some u, Some k) \<Rightarrow>
             if u = [] \<or> k = [] then (Inl (SysExit 1), t @ [Print ErrCredentials])
             else (Inr \<lparr>release_name = rname, project_name = pname, ticket_status = status,
                        jira_base_url = base, jira_username = u, jira_api_token = k\<rparr>, t)
         | _ \<Rightarrow> (Inl (SysExit 1), t @ [Print ErrCredentials]))"

text \<open>
  The response of a failed request is printed when it is truthy; a \<open>requests\<close> response
  is truthy when its status is not an error status.
\<close>

definition response_truthy :: "nat \<Rightarrow> bool" where
  "response_truthy code = (\<not> (400 \<le> code \<and> code < 600))"

text \<open>
  What \<open>requests.get\<close>, \<open>requests.post\<close> or \<open>requests.put\<close> is called with: only a GET
  carries the query parameters, only a POST or a PUT the JSON body.
\<close>

definition build_request ::
  "config \<Rightarrow> url \<Rightarrow> http_method \<Rightarrow> (string \<times> json) list option \<Rightarrow> json option \<Rightarrow> request" where
  "build_request cfg u method params data =
     \<lparr>req_method = method, req_url = u,
      req_auth = (jira_username cfg, jira_api_token cfg),
      req_headers = [(''Content-Type'', ''application/json'')],
      req_params = (if method = GET then params else None),
      req_json = (if method = GET then None else data)\<rparr>"

definition make_jira_request ::
  "config \<Rightarrow> server \<Rightarrow> url \<Rightarrow> http_method \<Rightarrow> (string \<times> json) list option \<Rightarrow> json option
     \<Rightarrow> event list \<Rightarrow> json result" where
  "make_jira_request cfg srv u method params data t =
     (case method of
        OtherMethod m \<Rightarrow> (Inl (SysExit 1), t @ [Print (ErrMethod m)])
      | _ \<Rightarrow>
        (let req = build_request cfg u method params data;
             rep = srv (requests_of t) req;
             t1 = t @ [Http req rep]
         in case rep of
              Failed msg resp \<Rightarrow>
                (Inl (SysExit 1),
                 t1 @ Print (ErrRequest msg) #
                   (case resp of
                      None \<Rightarrow> []
                    | Some (code, body) \<Rightarrow>
                        if response_truthy code then [Print (ErrStatus code), Print (ErrBody body)]
                        else []))
            | NoContent \<Rightarrow> (Inr (JObj []), t1)
            | Content v \<Rightarrow> (Inr v, t1)))"

definition get_current_user :: "config \<Rightarrow> server \<Rightarrow> event list \<Rightarrow> json result" where
  "get_current_user cfg srv t =
     make_jira_request cfg srv (Url (jira_base_url cfg) MyselfPath) GET None None t"

text \<open>The owner entry of the creation payload: \<open>if current_user and 'key' in current_user\<close>.\<close>

definition owner_entry :: "json \<Rightarrow> exc + (string \<times> json) list" where
  "owner_entry current_user =
     (if \<not> truthy current_user then Inr []
      else case py_contains ''key'' current_user of
             Inl e \<Rightarrow> Inl e
           | Inr False \<Rightarrow> Inr []
           | Inr True \<Rightarrow>
               (case py_subscript current_user ''key'' of
                  Inl e \<Rightarrow> Inl e
                | Inr v \<Rightarrow> Inr [(''owner'', v)]))"

text \<open>\<open>today\<close> is \<open>datetime.now().strftime("%Y-%m-%d")\<close>, read from the system clock.\<close>

definition create_release :: "config \<Rightarrow> string \<Rightarrow> server \<Rightarrow> event list \<Rightarrow> json result" where
  "create_release cfg today srv t =
     (case get_current_user cfg srv t of
        (Inl a, t1) \<Rightarrow> (Inl a, t1)
      | (Inr current_user, t1) \<Rightarrow>
          (let data = [(''name'', JStr (release_name cfg)),
                       (''project'', JStr (project_name cfg)),
                       (''released'', JBool False),
                       (''userReleaseDate'', JStr today),
                       (''projectId'', JNull)]
           in case owner_entry current_user of
                Inl e \<Rightarrow> (Inl (Uncaught e), t1)
              | Inr owner \<Rightarrow>
                  (case make_jira_request cfg srv (Url (jira_base_url cfg) VersionPath) POST None
                          (Some (JObj (data @ owner)))
                          (t1 @ [Print (Creating (release_name cfg) (project_name cfg))]) of
                     (Inl a, t2) \<Rightarrow> (Inl a, t2)
                   | (Inr response, t2) \<Rightarrow>
                       (case py_get response ''name'' (JStr (release_name cfg)) of
                          Inl e \<Rightarrow> (Inl (Uncaught e), t2)
                        | Inr n \<Rightarrow> (Inr response, t2 @ [Print (Created n)])))))"

definition jql :: "config \<Rightarrow> string" where
  "jql cfg = ''project = '' @ [CHR 0x22] @ project_name cfg @ [CHR 0x22] @ '' AND status = '' @
             [CHR 0x22] @ ticket_status cfg @ [CHR 0x22] @ '' ORDER BY created ASC''"

definition get_tickets_with_status :: "config \<Rightarrow> server \<Rightarrow> event list \<Rightarrow> json result" where
  "get_tickets_with_status cfg srv t =
     (let params = [(''jql'', JStr (jql cfg)),
                    (''fields'', JStr ''key,summary,status,fixVersions''),
                    (''maxResults'', JInt 1000)]
      in case make_jira_request cfg srv (Url (jira_base_url cfg) SearchPath) GET (Some params) None t of
           (Inl a, t1) \<Rightarrow> (Inl a, t1)
         | (Inr response, t1) \<Rightarrow>
             (case py_get response ''issues'' (JArr []) of
                Inl e \<Rightarrow> (Inl (Uncaught e), t1)
              | Inr issues \<Rightarrow>
                  (case py_len issues of
                     Inl e \<Rightarrow> (Inl (Uncaught e), t1)
                   | Inr n \<Rightarrow>
                       (Inr issues, t1 @ [Print (Found n (ticket_status cfg) (project_name cfg))]))))"

text \<open>\<open>[v['id'] for v in current_fix_versions]\<close>: the first element without an id raises.\<close>

fun version_ids :: "json list \<Rightarrow> exc + json list" where
  "version_ids [] = Inr []"
| "version_ids (v # vs) =
     (case py_subscript v ''id'' of
        Inl e \<Rightarrow> Inl e
      | Inr i \<Rightarrow> (case version_ids vs of Inl e \<Rightarrow> Inl e | Inr is \<Rightarrow> Inr (i # is)))"

definition current_fix_version_ids :: "json \<Rightarrow> exc + json list" where
  "current_fix_version_ids issue =
     (case py_get issue ''fields'' (JObj []) of
        Inl e \<Rightarrow> Inl e
      | Inr flds \<Rightarrow>
          (case py_get flds ''fixVersions'' (JArr []) of
             Inl e \<Rightarrow> Inl e
           | Inr current_fix_versions \<Rightarrow>
               (case py_iter current_fix_versions of
                  Inl e \<Rightarrow> Inl e
                | Inr vs \<Rightarrow> version_ids vs)))"

definition fix_versions_data :: "json list \<Rightarrow> json" where
  "fix_versions_data ids =
     JObj [(''fields'', JObj [(''fixVersions'', JArr (map (\<lambda>version_id. JObj [(''id'', version_id)]) ids))])]"

text \<open>The body of the loop of \<open>add_fix_version_to_tickets\<close>, for one issue.\<close>

definition add_fix_version_to_ticket :: "config \<Rightarrow> server \<Rightarrow> json \<Rightarrow> json \<Rightarrow> event list \<Rightarrow> unit result" where
  "add_fix_version_to_ticket cfg srv release_id issue t =
     (case py_subscript issue ''key'' of
        Inl e \<Rightarrow> (Inl (Uncaught e), t)
      | Inr issue_key \<Rightarrow>
          (case current_fix_version_ids issue of
             Inl e \<Rightarrow> (Inl (Uncaught e), t)
           | Inr ids \<Rightarrow>
               if \<not> py_in release_id ids then
                 (case make_jira_request cfg srv (Url (jira_base_url cfg) (IssuePath issue_key)) PUT None
                         (Some (fix_versions_data (ids @ [release_id]))) t of
                    (Inl a, t1) \<Rightarrow> (Inl a, t1)
                  | (Inr r, t1) \<Rightarrow> (Inr (), t1 @ [Print (Added issue_key)]))
               else (Inr (), t @ [Print (AlreadyHas issue_key)])))"

text \<open>The loop itself: the issues in order, stopping where one aborts.\<close>

fun add_fix_version_loop :: "config \<Rightarrow> server \<Rightarrow> json \<Rightarrow> json list \<Rightarrow> event list \<Rightarrow> unit result" where
  "add_fix_version_loop cfg srv release_id [] t = (Inr (), t)"
| "add_fix_version_loop cfg srv release_id (issue # issues) t =
     (case add_fix_version_to_ticket cfg srv release_id issue t of
        (Inl a, t1) \<Rightarrow> (Inl a, t1)
      | (Inr u, t1) \<Rightarrow> add_fix_version_loop cfg srv release_id issues t1)"

definition add_fix_version_to_tickets :: "config \<Rightarrow> server \<Rightarrow> json \<Rightarrow> json \<Rightarrow> event list \<Rightarrow> unit result" where
  "add_fix_version_to_tickets cfg srv release_id issues t =
     (case py_iter issues of
        Inl e \<Rightarrow> (Inl (Uncaught e), t)
      | Inr xs \<Rightarrow> add_fix_version_loop cfg srv release_id xs t)"

definition run :: "config \<Rightarrow> string \<Rightarrow> server \<Rightarrow> event list \<Rightarrow> unit result" where
  "run cfg today srv t =
     (case create_release cfg today srv (t @ [Print Starting]) of
        (Inl a, t1) \<Rightarrow> (Inl a, t1)
      | (Inr release, t1) \<Rightarrow>
          (case py_get release ''id'' JNull of
             Inl e \<Rightarrow> (Inl (Uncaught e), t1)
           | Inr release_id \<Rightarrow>
               if \<not> truthy release_id then (Inl (SysExit 1), t1 @ [Print ErrReleaseId])
               else
                 (case get_tickets_with_status cfg srv t1 of
                    (Inl a, t2) \<Rightarrow> (Inl a, t2)
                  | (Inr issues, t2) \<Rightarrow>
                      (case add_fix_version_to_tickets cfg srv release_id issues t2 of
                         (Inl a, t3) \<Rightarrow> (Inl a, t3)
                       | (Inr u, t3) \<Rightarrow>
                           (case py_len issues of
                              Inl e \<Rightarrow> (Inl (Uncaught e), t3 @ [Print Completed])
                            | Inr n \<Rightarrow>
                                (Inr (), t3 @ [Print Completed, Print (Summary (release_name cfg) n)]))))))"

text \<open>\<open>main\<close>, after \<open>argparse\<close> has read the three required flags.\<close>

definition main :: "string \<Rightarrow> string \<Rightarrow> string \<Rightarrow> (string \<rightharpoonup> string) \<Rightarrow> string \<Rightarrow> server \<Rightarrow> unit result" where
  "main rname pname status env today srv =
     (case init rname pname status env [] of
        (Inl a, t) \<Rightarrow> (Inl a, t)
      | (Inr creator, t) \<Rightarrow> run creator today srv t)"

section \<open>Reading a trace\<close>

definition is_failed :: "reply \<Rightarrow> bool" where
  "is_failed rep = (case rep of Failed msg resp \<Rightarrow> True | _ \<Rightarrow> False)"

text \<open>The value \<open>_make_jira_request\<close> returns for a reply that is not a failure.\<close>

definition reply_value :: "reply \<Rightarrow> json option" where
  "reply_value rep = (case rep of Failed msg resp \<Rightarrow> None | NoContent \<Rightarrow> Some (JObj []) | Content v \<Rightarrow> Some v)"

definition is_http :: "event \<Rightarrow> bool" where
  "is_http e = (case e of Http r rep \<Rightarrow> True | Print m \<Rightarrow> False)"

definition is_failure :: "event \<Rightarrow> bool" where
  "is_failure e = (case e of Http r rep \<Rightarrow> is_failed rep | Print m \<Rightarrow> False)"

text \<open>The release-creation request, the ticket query and a ticket update.\<close>

definition is_creation :: "request \<Rightarrow> bool" where
  "is_creation r = (req_method r = POST \<and> url_path (req_url r) = VersionPath)"

definition is_query :: "request \<Rightarrow> bool" where
  "is_query r = (url_path (req_url r) = SearchPath)"

definition is_update :: "request \<Rightarrow> bool" where
  "is_update r = (case url_path (req_url r) of IssuePath k \<Rightarrow> True | _ \<Rightarrow> False)"

definition is_skip :: "event \<Rightarrow> bool" where
  "is_skip e = (case e of Print (AlreadyHas k) \<Rightarrow> True | _ \<Rightarrow> False)"

text \<open>A trace without a failed exchange.\<close>

definition quiet :: "event list \<Rightarrow> bool" where
  "quiet t = list_all (\<lambda>e. \<not> is_failure e) t"

text \<open>
  A creation reply that omits the id: a response that is an object without an \<open>id\<close>
  entry, or no object at all.
\<close>

definition omits_id :: "reply \<Rightarrow> bool" where
  "omits_id rep =
     (case reply_value rep of
        None \<Rightarrow> False
      | Some (JObj kvs) \<Rightarrow> map_of kvs ''id'' = None
      | Some v \<Rightarrow> True)"

text \<open>A query reply whose list of issues is empty.\<close>

definition returns_no_issues :: "reply \<Rightarrow> bool" where
  "returns_no_issues rep =
     (case reply_value rep of
        None \<Rightarrow> False
      | Some v \<Rightarrow> py_get v ''issues'' (JArr []) = Inr (JArr []))"

text \<open>An entry of the JSON body of a request.\<close>

definition body_field :: "request \<Rightarrow> string \<Rightarrow> json option" where
  "body_field r k = (case req_json r of Some (JObj kvs) \<Rightarrow> map_of kvs k | _ \<Rightarrow> None)"

text \<open>The \<open>userReleaseDate\<close> entries of the creation requests of a trace.\<close>

definition creation_dates :: "event list \<Rightarrow> json option list" where
  "creation_dates t = map (\<lambda>r. body_field r ''userReleaseDate'') (filter is_creation (requests_of t))"

text \<open>The three requests a run sends before it updates tickets.\<close>

definition user_request :: "config \<Rightarrow> request" where
  "user_request cfg = build_request cfg (Url (jira_base_url cfg) MyselfPath) GET None None"

definition creation_request :: "config \<Rightarrow> string \<Rightarrow> (string \<times> json) list \<Rightarrow> request" where
  "creation_request cfg today owner =
     build_request cfg (Url (jira_base_url cfg) VersionPath) POST None
       (Some (JObj ([(''name'', JStr (release_name cfg)),
                     (''project'', JStr (project_name cfg)),
                     (''released'', JBool False),
                     (''userReleaseDate'', JStr today),
                     (''projectId'', JNull)] @ owner)))"

definition search_request :: "config \<Rightarrow> request" where
  "search_request cfg =
     build_request cfg (Url (jira_base_url cfg) SearchPath) GET
       (Some [(''jql'', JStr (jql cfg)),
              (''fields'', JStr ''key,summary,status,fixVersions''),
              (''maxResults'', JInt 1000)]) None"

text \<open>
  The replies to them in a run that starts with an empty trace, and the trace up to the
  creation request and up to the ticket query.
\<close>

definition user_reply :: "config \<Rightarrow> server \<Rightarrow> reply" where
  "user_reply cfg srv = srv [] (user_request cfg)"

definition creation_reply :: "config \<Rightarrow> string \<Rightarrow> server \<Rightarrow> (string \<times> json) list \<Rightarrow> reply" where
  "creation_reply cfg today srv owner = srv [user_request cfg] (creation_request cfg today owner)"

definition search_reply :: "config \<Rightarrow> string \<Rightarrow> server \<Rightarrow> (string \<times> json) list \<Rightarrow> reply" where
  "search_reply cfg today srv owner =
     srv [user_request cfg, creation_request cfg today owner] (search_request cfg)"

definition creation_trace :: "config \<Rightarrow> string \<Rightarrow> server \<Rightarrow> (string \<times> json) list \<Rightarrow> event list" where
  "creation_trace cfg today srv owner =
     [Print Starting,
      Http (user_request cfg) (user_reply cfg srv),
      Print (Creating (release_name cfg) (project_name cfg)),
      Http (creation_request cfg today owner) (creation_reply cfg today srv owner)]"

definition query_trace ::
  "config \<Rightarrow> string \<Rightarrow> server \<Rightarrow> (string \<times> json) list \<Rightarrow> (string \<times> json) list \<Rightarrow> event list" where
  "query_trace cfg today srv owner kvs =
     creation_trace cfg today srv owner @
     [Print (Created (case map_of kvs ''name'' of None \<Rightarrow> JStr (release_name cfg) | Some v \<Rightarrow> v)),
      Http (search_request cfg) (search_reply cfg today srv owner)]"

section \<open>The end-to-end scenario\<close>

definition scenario_env :: "string \<rightharpoonup> string" where
  "scenario_env = [''JIRA_USERNAME'' \<mapsto> ''jdoe@example.com'', ''JIRA_API_TOKEN'' \<mapsto> ''secret'']"

definition scenario_config :: config where
  "scenario_config =
     \<lparr>release_name = ''v1.2.3'', project_name = ''PROJ'', ticket_status = ''Ready for Release'',
      jira_base_url = ''https://your-jira-instance.atlassian.net'',
      jira_username = ''jdoe@example.com'', jira_api_token = ''secret''\<rparr>"

definition scenario_issue1 :: json where
  "scenario_issue1 = JObj [(''key'', JStr ''PROJ-1''), (''fields'', JObj [(''fixVersions'', JArr [])])]"

definition scenario_issue2 :: json where
  "scenario_issue2 =
     JObj [(''key'', JStr ''PROJ-2''),
           (''fields'', JObj [(''fixVersions'', JArr [JObj [(''id'', JStr ''9000'')]])])]"

definition scenario_issues :: "json list" where
  "scenario_issues = [scenario_issue1, scenario_issue2]"

text \<open>A tracker that knows the user and answers the three other kinds of request as told.\<close>

definition tracker :: "reply \<Rightarrow> reply \<Rightarrow> reply \<Rightarrow> server" where
  "tracker created found updated history req =
     (case url_path (req_url req) of
        MyselfPath \<Rightarrow> Content (JObj [(''key'', JStr ''jdoe'')])
      | VersionPath \<Rightarrow> created
      | SearchPath \<Rightarrow> found
      | IssuePath k \<Rightarrow> updated)"

text \<open>Two more tickets: one that has the release already, one without a \<open>fields\<close> entry.\<close>

definition tagged_issue :: json where
  "tagged_issue =
     JObj [(''key'', JStr ''PROJ-3''),
           (''fields'', JObj [(''fixVersions'',
              JArr [JObj [(''id'', JStr ''9000'')], JObj [(''id'', JStr ''10050'')]])])]"

definition bare_issue :: json where
  "bare_issue = JObj [(''key'', JStr ''PROJ-4'')]"

text \<open>A ticket with three versions, their entries in different orders.\<close>

definition versioned_issue :: json where
  "versioned_issue =
     JObj [(''key'', JStr ''PROJ-5''),
           (''fields'', JObj [(''fixVersions'',
              JArr [JObj [(''id'', JStr ''9000''), (''name'', JStr ''v1.0'')],
                    JObj [(''id'', JStr ''9001'')],
                    JObj [(''name'', JStr ''v1.2''), (''id'', JStr ''9002'')]])])]"

definition scenario_server :: server where
  "scenario_server history req =
     (case url_path (req_url req) of
        MyselfPath \<Rightarrow> Content (JObj [(''key'', JStr ''jdoe'')])
      | VersionPath \<Rightarrow> Content (JObj [(''id'', JStr ''10050''), (''name'', JStr ''v1.2.3'')])
      | SearchPath \<Rightarrow> Content (JObj [(''issues'', JArr scenario_issues)])
      | IssuePath k \<Rightarrow> NoContent)"

section \<open>The request function and the loop\<close>

lemma loop_append:
  "add_fix_version_loop cfg srv rid (xs @ ys) t =
     (case add_fix_version_loop cfg srv rid xs t of
        (Inl a, t1) \<Rightarrow> (Inl a, t1)
      | (Inr u, t1) \<Rightarrow> add_fix_version_loop cfg srv rid ys t1)"
  by (induction xs arbitrary: t) (auto split: prod.splits sum.splits)

text \<open>What one call of \<open>_make_jira_request\<close> with GET, POST or PUT adds to the trace.\<close>

lemma make_jira_request_sent:
  assumes "\<And>m. meth \<noteq> OtherMethod m"
    and "make_jira_request cfg srv u meth params data t = (out, t')"
  shows "\<exists>msgs. t' = t @ Http (build_request cfg u meth params data)
                       (srv (requests_of t) (build_request cfg u meth params data)) # map Print msgs
           \<and> (case reply_value (srv (requests_of t) (build_request cfg u meth params data)) of
                None \<Rightarrow> out = Inl (SysExit 1)
              | Some v \<Rightarrow> out = Inr v \<and> msgs = [])"
proof (cases "srv (requests_of t) (build_request cfg u meth params data)")
  case (Failed msg resp)
  let ?report = "case resp of None \<Rightarrow> []
     | Some (code, body) \<Rightarrow> if response_truthy code then [ErrStatus code, ErrBody body] else []"
  from assms Failed have "t' = t @ Http (build_request cfg u meth params data)
                       (srv (requests_of t) (build_request cfg u meth params data)) # map Print (ErrRequest msg # ?report)"
    and "out = Inl (SysExit 1)"
    by (cases meth; auto simp: make_jira_request_def Let_def split: option.splits)+
  with Failed show ?thesis unfolding reply_value_def by (intro exI[of _ "ErrRequest msg # ?report"]) simp
next
  case NoContent
  with assms show ?thesis
    by (cases meth) (auto simp: make_jira_request_def Let_def reply_value_def)
next
  case (Content v)
  with assms show ?thesis
    by (cases meth) (auto simp: make_jira_request_def Let_def reply_value_def)
qed

lemma reply_value_None: "reply_value rep = None \<longleftrightarrow> is_failed rep"
  by (cases rep) (auto simp: reply_value_def is_failed_def)

text \<open>What the loop body adds for one issue.\<close>

lemma ticket_skip:
  assumes "py_subscript issue ''key'' = Inr key"
    and "current_fix_version_ids issue = Inr ids"
    and "py_in rid ids"
  shows "add_fix_version_to_ticket cfg srv rid issue t = (Inr (), t @ [Print (AlreadyHas key)])"
  using assms by (simp add: add_fix_version_to_ticket_def)

lemma ticket_update:
  assumes "py_subscript issue ''key'' = Inr key"
    and "current_fix_version_ids issue = Inr ids"
    and "\<not> py_in rid ids"
    and "req = build_request cfg (Url (jira_base_url cfg) (IssuePath key)) PUT None
                 (Some (fix_versions_data (ids @ [rid])))"
  shows "\<exists>out msgs. add_fix_version_to_ticket cfg srv rid issue t =
           (out, t @ Http req (srv (requests_of t) req) # map Print msgs)
         \<and> (out = Inr () \<longleftrightarrow> \<not> is_failed (srv (requests_of t) req))
         \<and> (is_failed (srv (requests_of t) req) \<longrightarrow> out = Inl (SysExit 1))"
proof -
  obtain o1 t1 where m: "make_jira_request cfg srv (Url (jira_base_url cfg) (IssuePath key)) PUT None
            (Some (fix_versions_data (ids @ [rid]))) t = (o1, t1)"
    by (cases "make_jira_request cfg srv (Url (jira_base_url cfg) (IssuePath key)) PUT None
            (Some (fix_versions_data (ids @ [rid]))) t") auto
  from make_jira_request_sent [OF _ m] assms(4)
  obtain msgs where t1: "t1 = t @ Http req (srv (requests_of t) req) # map Print msgs"
    and o1: "case reply_value (srv (requests_of t) req) of None \<Rightarrow> o1 = Inl (SysExit 1)
              | Some v \<Rightarrow> o1 = Inr v \<and> msgs = []"
    by auto
  show ?thesis
  proof (cases "reply_value (srv (requests_of t) req)")
    case None
    with o1 t1 m assms(1-3) show ?thesis
      by (auto simp: add_fix_version_to_ticket_def reply_value_None)
  next
    case (Some v)
    then have nf: "\<not> is_failed (srv (requests_of t) req)"
      using reply_value_None [of "srv (requests_of t) req"] by simp
    from Some o1 t1 m assms(1-3) have
      "add_fix_version_to_ticket cfg srv rid issue t =
         (Inr (), t @ Http req (srv (requests_of t) req) # map Print [Added key])"
      by (simp add: add_fix_version_to_ticket_def)
    with nf show ?thesis by blast
  qed
qed


lemma requests_of_append: "requests_of (a @ b) = requests_of a @ requests_of b"
  by (induction a rule: requests_of.induct) auto

lemma requests_of_prints: "requests_of (map Print msgs) = []"
  by (induction msgs) auto

lemma requests_of_mem: "r \<in> set (requests_of t) \<longleftrightarrow> (\<exists>rep. Http r rep \<in> set t)"
  by (induction t rule: requests_of.induct) auto

lemma ticket_step:
  assumes "add_fix_version_to_ticket cfg srv rid issue t = (out, t')"
  shows "(\<exists>e. out = Inl (Uncaught e) \<and> t' = t) \<or>
         (\<exists>key. out = Inr () \<and> t' = t @ [Print (AlreadyHas key)]) \<or>
         (\<exists>req msgs. t' = t @ Http req (srv (requests_of t) req) # map Print msgs \<and>
             req_method req = PUT \<and> is_update req \<and>
             (if is_failed (srv (requests_of t) req) then out = Inl (SysExit 1)
              else out = Inr () \<and> (\<exists>key. msgs = [Added key])))"
proof (cases "py_subscript issue ''key''")
  case (Inl e)
  with assms show ?thesis by (auto simp: add_fix_version_to_ticket_def)
next
  case key: (Inr key)
  show ?thesis
  proof (cases "current_fix_version_ids issue")
    case (Inl e)
    with key assms show ?thesis by (auto simp: add_fix_version_to_ticket_def)
  next
    case ids: (Inr ids)
    show ?thesis
    proof (cases "py_in rid ids")
      case True
      from ticket_skip [OF key ids True, of cfg srv t] assms show ?thesis by auto
    next
      case False
      define req where "req = build_request cfg (Url (jira_base_url cfg) (IssuePath key)) PUT None
                 (Some (fix_versions_data (ids @ [rid])))"
      have props: "req_method req = PUT" "is_update req"
        by (simp_all add: req_def build_request_def is_update_def)
      from ticket_update [OF key ids False req_def, of srv t] assms
      obtain msgs where t': "t' = t @ Http req (srv (requests_of t) req) # map Print msgs"
        and o1: "out = Inr () \<longleftrightarrow> \<not> is_failed (srv (requests_of t) req)"
        and o2: "is_failed (srv (requests_of t) req) \<longrightarrow> out = Inl (SysExit 1)"
        by auto
      show ?thesis
      proof (cases "is_failed (srv (requests_of t) req)")
        case True
        with t' o2 props show ?thesis by auto
      next
        case nf: False
        then have rv: "reply_value (srv (requests_of t) req) \<noteq> None"
          by (simp add: reply_value_None)
        obtain o1' t1 where m: "make_jira_request cfg srv (Url (jira_base_url cfg) (IssuePath key)) PUT None
            (Some (fix_versions_data (ids @ [rid]))) t = (o1', t1)"
          by (cases "make_jira_request cfg srv (Url (jira_base_url cfg) (IssuePath key)) PUT None
            (Some (fix_versions_data (ids @ [rid]))) t") auto
        from make_jira_request_sent [OF _ m] rv
        have "t1 = t @ [Http req (srv (requests_of t) req)]" and "\<exists>v. o1' = Inr v"
          by (auto simp: req_def)
        with m key ids False assms
        have "t' = t @ Http req (srv (requests_of t) req) # map Print [Added key]" "out = Inr ()"
          by (auto simp: add_fix_version_to_ticket_def req_def)
        with nf props show ?thesis by (metis (full_types))
      qed
    qed
  qed
qed


lemma is_failure_simps [simp]:
  "is_failure (Http r rep) = is_failed rep" "is_failure (Print m) = False"
  by (simp_all add: is_failure_def)

lemma is_skip_simps [simp]:
  "is_skip (Http r rep) = False" "is_skip (Print (AlreadyHas k)) = True"
  "is_skip (Print (Added k)) = False"
  by (simp_all add: is_skip_def)

text \<open>The loop body, summarised: what it adds to the trace and how it ends.\<close>

lemma ticket_step_summary:
  assumes "add_fix_version_to_ticket cfg srv rid issue t = (out, t')"
  shows "\<exists>suf. t' = t @ suf \<and> list_all is_update (requests_of suf) \<and>
           (case out of
              Inr u \<Rightarrow> (\<forall>e \<in> set suf. \<not> is_failure e) \<and>
                       length (requests_of suf) + length (filter is_skip suf) = 1
            | Inl a \<Rightarrow> suf = [] \<or>
                       a = SysExit 1 \<and> (\<exists>r rep msgs. suf = Http r rep # map Print msgs \<and> is_failed rep))"
  using ticket_step [OF assms]
proof (elim disjE exE conjE)
  fix e assume "out = Inl (Uncaught e)" "t' = t"
  then show ?thesis by simp
next
  fix key assume "out = Inr ()" "t' = t @ [Print (AlreadyHas key)]"
  then show ?thesis by simp
next
  fix req msgs
  assume t': "t' = t @ Http req (srv (requests_of t) req) # map Print msgs"
    and req: "req_method req = PUT" "is_update req"
    and out: "if is_failed (srv (requests_of t) req) then out = Inl (SysExit 1)
              else out = Inr () \<and> (\<exists>key. msgs = [Added key])"
  show ?thesis
  proof (cases "is_failed (srv (requests_of t) req)")
    case True
    with t' req out show ?thesis by (auto simp: requests_of_prints)
  next
    case False
    with t' req out show ?thesis by (auto simp: requests_of_prints)
  qed
qed

lemma loop_trace:
  assumes "add_fix_version_loop cfg srv rid xs t = (out, t')"
  shows "\<exists>suf. t' = t @ suf \<and> list_all is_update (requests_of suf) \<and>
           (case out of
              Inr u \<Rightarrow> (\<forall>e \<in> set suf. \<not> is_failure e) \<and>
                       length (requests_of suf) + length (filter is_skip suf) = length xs
            | Inl a \<Rightarrow> (\<forall>e \<in> set suf. \<not> is_failure e) \<or>
                       a = SysExit 1 \<and>
                       (\<exists>s1 r rep msgs. suf = s1 @ Http r rep # map Print msgs \<and> is_failed rep \<and>
                          (\<forall>e \<in> set s1. \<not> is_failure e)))"
  using assms
proof (induction xs arbitrary: t)
  case Nil
  then show ?case by auto
next
  case (Cons x xs)
  obtain o1 t1 where step: "add_fix_version_to_ticket cfg srv rid x t = (o1, t1)"
    by (cases "add_fix_version_to_ticket cfg srv rid x t") auto
  from ticket_step_summary [OF step] obtain s1 where
    t1: "t1 = t @ s1" and u1: "list_all is_update (requests_of s1)" and
    c1: "case o1 of
           Inr u \<Rightarrow> (\<forall>e \<in> set s1. \<not> is_failure e) \<and>
                    length (requests_of s1) + length (filter is_skip s1) = 1
         | Inl a \<Rightarrow> s1 = [] \<or>
                    a = SysExit 1 \<and> (\<exists>r rep msgs. s1 = Http r rep # map Print msgs \<and> is_failed rep)"
    by blast
  show ?case
  proof (cases o1)
    case (Inl a)
    with step Cons.prems have eq: "out = Inl a" "t' = t1" by auto
    from c1 Inl consider "s1 = []"
      | r rep msgs where "a = SysExit 1" "s1 = Http r rep # map Print msgs" "is_failed rep"
      by auto
    then show ?thesis
    proof cases
      case 1
      with eq t1 show ?thesis by simp
    next
      case 2
      have "s1 = [] @ Http r rep # map Print msgs \<and> is_failed rep \<and> (\<forall>e \<in> set ([]::event list). \<not> is_failure e)"
        using 2 by simp
      then have "\<exists>s r rep msgs. s1 = s @ Http r rep # map Print msgs \<and> is_failed rep \<and>
                  (\<forall>e \<in> set s. \<not> is_failure e)"
        by blast
      with eq t1 u1 2(1) show ?thesis by auto
    qed
  next
    case (Inr u)
    with step Cons.prems have rest: "add_fix_version_loop cfg srv rid xs t1 = (out, t')" by simp
    from Cons.IH [OF rest] obtain s2 where
      t': "t' = t1 @ s2" and u2: "list_all is_update (requests_of s2)" and
      c2: "case out of
             Inr u \<Rightarrow> (\<forall>e \<in> set s2. \<not> is_failure e) \<and>
                      length (requests_of s2) + length (filter is_skip s2) = length xs
           | Inl a \<Rightarrow> (\<forall>e \<in> set s2. \<not> is_failure e) \<or>
                      a = SysExit 1 \<and>
                      (\<exists>s r rep msgs. s2 = s @ Http r rep # map Print msgs \<and> is_failed rep \<and>
                         (\<forall>e \<in> set s. \<not> is_failure e))"
      by blast
    from c1 Inr have q1: "\<forall>e \<in> set s1. \<not> is_failure e"
      and n1: "length (requests_of s1) + length (filter is_skip s1) = 1" by auto
    have shape: "t' = t @ (s1 @ s2)" "list_all is_update (requests_of (s1 @ s2))"
      using t1 t' u1 u2 by (simp_all add: requests_of_append)
    show ?thesis
    proof (cases out)
      case out: (Inr v)
      with c2 q1 n1 have "(\<forall>e \<in> set (s1 @ s2). \<not> is_failure e) \<and>
           length (requests_of (s1 @ s2)) + length (filter is_skip (s1 @ s2)) = length (x # xs)"
        by (auto simp: requests_of_append)
      with shape out show ?thesis by (intro exI [of _ "s1 @ s2"]) simp
    next
      case out: (Inl a)
      from c2 out consider "\<forall>e \<in> set s2. \<not> is_failure e"
        | s r rep msgs where "a = SysExit 1" "s2 = s @ Http r rep # map Print msgs" "is_failed rep"
            "\<forall>e \<in> set s. \<not> is_failure e"
        by auto
      then show ?thesis
      proof cases
        case 1
        with q1 have "\<forall>e \<in> set (s1 @ s2). \<not> is_failure e" by auto
        with shape out show ?thesis by (intro exI [of _ "s1 @ s2"]) simp
      next
        case 2
        have "s1 @ s2 = (s1 @ s) @ Http r rep # map Print msgs \<and> is_failed rep \<and>
                (\<forall>e \<in> set (s1 @ s). \<not> is_failure e)"
          using 2 q1 by auto
        then have "\<exists>s' r rep msgs. s1 @ s2 = s' @ Http r rep # map Print msgs \<and> is_failed rep \<and>
                (\<forall>e \<in> set s'. \<not> is_failure e)"
          by blast
        with shape out 2(1) show ?thesis by (intro exI [of _ "s1 @ s2"]) simp
      qed
    qed
  qed
qed

section \<open>Attaching the release to one ticket\<close>

lemma loop_extends:
  "\<exists>out rest. add_fix_version_loop cfg srv rid xs t = (out, t @ rest)"
proof -
  obtain out t' where r: "add_fix_version_loop cfg srv rid xs t = (out, t')"
    by (cases "add_fix_version_loop cfg srv rid xs t") auto
  from loop_trace [OF r] r show ?thesis by auto
qed

lemma tickets_list [simp]:
  "add_fix_version_to_tickets cfg srv rid (JArr xs) t = add_fix_version_loop cfg srv rid xs t"
  by (simp add: add_fix_version_to_tickets_def)

lemma loop_reaches_update:
  assumes reach: "add_fix_version_loop cfg srv rid pre t = (Inr (), t1)"
    and key: "py_subscript issue ''key'' = Inr key"
    and ids: "current_fix_version_ids issue = Inr ids"
    and absent: "\<not> py_in rid ids"
    and req: "req = build_request cfg (Url (jira_base_url cfg) (IssuePath key)) PUT None
                 (Some (fix_versions_data (ids @ [rid])))"
  shows "\<exists>out rest. add_fix_version_loop cfg srv rid (pre @ issue # post) t =
           (out, t1 @ Http req (srv (requests_of t1) req) # rest)"
proof -
  from ticket_update [OF key ids absent req, of srv t1]
  obtain o1 msgs where step: "add_fix_version_to_ticket cfg srv rid issue t1 =
      (o1, t1 @ Http req (srv (requests_of t1) req) # map Print msgs)"
    by blast
  show ?thesis
  proof (cases o1)
    case (Inl a)
    with step reach show ?thesis by (simp add: loop_append)
  next
    case (Inr u)
    from loop_extends [of cfg srv rid post "t1 @ Http req (srv (requests_of t1) req) # map Print msgs"]
    obtain out rest where "add_fix_version_loop cfg srv rid post
        (t1 @ Http req (srv (requests_of t1) req) # map Print msgs) =
        (out, (t1 @ Http req (srv (requests_of t1) req) # map Print msgs) @ rest)"
      by blast
    with Inr step reach show ?thesis by (simp add: loop_append)
  qed
qed

text \<open>
  The comprehension reads the \<open>id\<close> entry of every version object, all of them and in
  their order.
\<close>

lemma version_ids_read:
  assumes "list_all2 (\<lambda>v i. \<exists>entries. v = JObj entries \<and> map_of entries ''id'' = Some i) vs ids"
  shows "version_ids vs = Inr ids"
  using assms by (induction vs ids rule: list_all2_induct) auto

lemma current_fix_version_ids_read:
  assumes "map_of kvs ''fields'' = Some (JObj flds)"
    and "map_of flds ''fixVersions'' = Some (JArr vs)"
    and "list_all2 (\<lambda>v i. \<exists>entries. v = JObj entries \<and> map_of entries ''id'' = Some i) vs ids"
  shows "current_fix_version_ids (JObj kvs) = Inr ids"
  using assms(1,2) version_ids_read [OF assms(3)]
  by (simp add: current_fix_version_ids_def)

text \<open>
  C1. A ticket the loop reaches, with a key and a \<open>fixVersions\<close> list of version objects
  whose \<open>id\<close> entries, in the order of the list, are \<open>ids\<close>, none of them the release
  id: the next exchange is a PUT to that ticket's URL whose \<open>fixVersions\<close> are those ids,
  all of them and in that order, followed by the release id, once, at the end.
\<close>

theorem attach_appends_release_id:
  assumes "add_fix_version_to_tickets cfg srv rid (JArr pre) t = (Inr (), t1)"
    and "map_of kvs ''key'' = Some key"
    and "map_of kvs ''fields'' = Some (JObj flds)"
    and "map_of flds ''fixVersions'' = Some (JArr vs)"
    and "list_all2 (\<lambda>v i. \<exists>entries. v = JObj entries \<and> map_of entries ''id'' = Some i) vs ids"
    and "\<not> py_in rid ids"
  shows "\<exists>req out rest.
           add_fix_version_to_tickets cfg srv rid (JArr (pre @ JObj kvs # post)) t =
             (out, t1 @ Http req (srv (requests_of t1) req) # rest) \<and>
           req_method req = PUT \<and>
           req_url req = Url (jira_base_url cfg) (IssuePath key) \<and>
           req_json req =
             Some (JObj [(''fields'',
                     JObj [(''fixVersions'', JArr (map (\<lambda>v. JObj [(''id'', v)]) (ids @ [rid])))])])"
proof -
  define req where "req = build_request cfg (Url (jira_base_url cfg) (IssuePath key)) PUT None
                 (Some (fix_versions_data (ids @ [rid])))"
  from assms(1) have reach: "add_fix_version_loop cfg srv rid pre t = (Inr (), t1)" by simp
  have key: "py_subscript (JObj kvs) ''key'' = Inr key"
    using assms(2) by simp
  have ids: "current_fix_version_ids (JObj kvs) = Inr ids"
    by (rule current_fix_version_ids_read [OF assms(3-5)])
  from loop_reaches_update [OF reach key ids assms(6) req_def, of post]
  obtain out rest where "add_fix_version_loop cfg srv rid (pre @ JObj kvs # post) t =
           (out, t1 @ Http req (srv (requests_of t1) req) # rest)"
    by blast
  moreover have "req_method req = PUT" "req_url req = Url (jira_base_url cfg) (IssuePath key)"
    "req_json req = Some (JObj [(''fields'',
                     JObj [(''fixVersions'', JArr (map (\<lambda>v. JObj [(''id'', v)]) (ids @ [rid])))])])"
    by (simp_all add: req_def build_request_def fix_versions_data_def)
  ultimately show ?thesis by auto
qed

text \<open>
  C2. A ticket the loop reaches, whose list of version ids holds the release id: the loop
  sends nothing for it, prints that the issue already has the fixVersion, and goes on with
  the tickets after it.
\<close>

theorem attach_skips_present_release_id:
  assumes "add_fix_version_to_tickets cfg srv rid (JArr pre) t = (Inr (), t1)"
    and "py_subscript issue ''key'' = Inr key"
    and "current_fix_version_ids issue = Inr ids"
    and "py_in rid ids"
  shows "add_fix_version_to_tickets cfg srv rid (JArr (pre @ [issue])) t =
           (Inr (), t1 @ [Print (AlreadyHas key)]) \<and>
         add_fix_version_to_tickets cfg srv rid (JArr (pre @ issue # post)) t =
           add_fix_version_to_tickets cfg srv rid (JArr post) (t1 @ [Print (AlreadyHas key)])"
  using assms(1) ticket_skip [OF assms(2-4), of cfg srv t1]
  by (simp add: loop_append)

lemmas scenario_defs =
  scenario_config_def scenario_issue1_def scenario_issue2_def scenario_issues_def
  scenario_server_def scenario_env_def tagged_issue_def bare_issue_def

lemma scenario_first_ticket:
  "add_fix_version_to_tickets scenario_config scenario_server (JStr ''10050'') (JArr [scenario_issue1]) [] =
     (Inr (),
      [Http (build_request scenario_config (Url ''https://your-jira-instance.atlassian.net'' (IssuePath (JStr ''PROJ-1'')))
               PUT None (Some (fix_versions_data [JStr ''10050''])))
            NoContent,
       Print (Added (JStr ''PROJ-1''))])"
  by (simp add: add_fix_version_to_ticket_def current_fix_version_ids_def
        make_jira_request_def build_request_def fix_versions_data_def py_in_def scenario_defs)

theorem attach_appends_release_id_witness:
  "\<exists>req out rest.
     add_fix_version_to_tickets scenario_config scenario_server (JStr ''10050'')
         (JArr [scenario_issue1, versioned_issue, scenario_issue2]) [] =
       (out,
        [Http (build_request scenario_config
                 (Url ''https://your-jira-instance.atlassian.net'' (IssuePath (JStr ''PROJ-1'')))
                 PUT None (Some (fix_versions_data [JStr ''10050''])))
              NoContent,
         Print (Added (JStr ''PROJ-1''))] @ Http req NoContent # rest) \<and>
     req_method req = PUT \<and>
     req_url req = Url ''https://your-jira-instance.atlassian.net'' (IssuePath (JStr ''PROJ-5'')) \<and>
     req_json req =
       Some (JObj [(''fields'',
               JObj [(''fixVersions'',
                 JArr [JObj [(''id'', JStr ''9000'')], JObj [(''id'', JStr ''9001'')],
                       JObj [(''id'', JStr ''9002'')], JObj [(''id'', JStr ''10050'')]])])])"
proof -
  let ?vs = "[JObj [(''id'', JStr ''9000''), (''name'', JStr ''v1.0'')],
              JObj [(''id'', JStr ''9001'')],
              JObj [(''name'', JStr ''v1.2''), (''id'', JStr ''9002'')]]"
  let ?flds = "[(''fixVersions'', JArr ?vs)]"
  let ?kvs = "[(''key'', JStr ''PROJ-5''), (''fields'', JObj ?flds)]"
  let ?ids = "[JStr ''9000'', JStr ''9001'', JStr ''9002'']"
  have key: "map_of ?kvs ''key'' = Some (JStr ''PROJ-5'')"
    by simp
  have flds: "map_of ?kvs ''fields'' = Some (JObj ?flds)"
    by simp
  have vs: "map_of ?flds ''fixVersions'' = Some (JArr ?vs)"
    by simp
  have ids: "list_all2 (\<lambda>v i. \<exists>entries. v = JObj entries \<and> map_of entries ''id'' = Some i) ?vs ?ids"
    by simp
  have absent: "\<not> py_in (JStr ''10050'') ?ids"
    by (simp add: py_in_def)
  let ?t1 = "[Http (build_request scenario_config
                 (Url ''https://your-jira-instance.atlassian.net'' (IssuePath (JStr ''PROJ-1'')))
                 PUT None (Some (fix_versions_data [JStr ''10050''])))
              NoContent,
         Print (Added (JStr ''PROJ-1''))]"
  from attach_appends_release_id [OF scenario_first_ticket key flds vs ids absent, of "[scenario_issue2]"]
  obtain req out rest where
    run: "add_fix_version_to_tickets scenario_config scenario_server (JStr ''10050'')
            (JArr ([scenario_issue1] @ JObj ?kvs # [scenario_issue2])) [] =
          (out, ?t1 @ Http req (scenario_server (requests_of ?t1) req) # rest)"
    and req: "req_method req = PUT"
      "req_url req = Url (jira_base_url scenario_config) (IssuePath (JStr ''PROJ-5''))"
      "req_json req = Some (JObj [(''fields'',
          JObj [(''fixVersions'', JArr (map (\<lambda>v. JObj [(''id'', v)]) (?ids @ [JStr ''10050''])))])])"
    by blast
  from req(2) have "scenario_server (requests_of ?t1) req = NoContent"
    by (simp add: scenario_server_def)
  with run req show ?thesis
    by (intro exI [of _ req] exI [of _ out] exI [of _ rest])
       (simp add: scenario_config_def versioned_issue_def)
qed

theorem attach_skips_present_release_id_witness:
  "add_fix_version_to_tickets scenario_config scenario_server (JStr ''10050'')
       (JArr [scenario_issue1, tagged_issue]) [] =
     (Inr (),
      [Http (build_request scenario_config
               (Url ''https://your-jira-instance.atlassian.net'' (IssuePath (JStr ''PROJ-1'')))
               PUT None (Some (fix_versions_data [JStr ''10050''])))
            NoContent,
       Print (Added (JStr ''PROJ-1'')),
       Print (AlreadyHas (JStr ''PROJ-3''))])"
proof -
  have key: "py_subscript tagged_issue ''key'' = Inr (JStr ''PROJ-3'')"
    by (simp add: tagged_issue_def)
  have ids: "current_fix_version_ids tagged_issue = Inr [JStr ''9000'', JStr ''10050'']"
    by (simp add: tagged_issue_def current_fix_version_ids_def)
  have present: "py_in (JStr ''10050'') [JStr ''9000'', JStr ''10050'']"
    by (simp add: py_in_def)
  from attach_skips_present_release_id [OF scenario_first_ticket key ids present, of "[]"]
  show ?thesis by simp
qed

text \<open>
  C10. A ticket the loop reaches that has a key and no \<open>fields\<close> entry, or whose
  \<open>fields\<close> is an object without a \<open>fixVersions\<close> entry: its list of version ids is
  read as empty, and the next exchange is a PUT whose \<open>fixVersions\<close> hold the release id
  and nothing else.
\<close>

theorem attach_defaults_missing_versions:
  assumes "add_fix_version_to_tickets cfg srv rid (JArr pre) t = (Inr (), t1)"
    and "map_of kvs ''key'' = Some key"
    and "map_of kvs ''fields'' = None \<or>
         (\<exists>f. map_of kvs ''fields'' = Some (JObj f) \<and> map_of f ''fixVersions'' = None)"
  shows "current_fix_version_ids (JObj kvs) = Inr [] \<and>
         (\<exists>req out rest.
            add_fix_version_to_tickets cfg srv rid (JArr (pre @ JObj kvs # post)) t =
              (out, t1 @ Http req (srv (requests_of t1) req) # rest) \<and>
            req_method req = PUT \<and>
            req_url req = Url (jira_base_url cfg) (IssuePath key) \<and>
            req_json req =
              Some (JObj [(''fields'', JObj [(''fixVersions'', JArr [JObj [(''id'', rid)]])])]))"
proof -
  define req where "req = build_request cfg (Url (jira_base_url cfg) (IssuePath key)) PUT None
                 (Some (fix_versions_data ([] @ [rid])))"
  from assms(1) have reach: "add_fix_version_loop cfg srv rid pre t = (Inr (), t1)" by simp
  have key: "py_subscript (JObj kvs) ''key'' = Inr key"
    using assms(2) by simp
  have ids: "current_fix_version_ids (JObj kvs) = Inr []"
    using assms(3) by (auto simp: current_fix_version_ids_def)
  have absent: "\<not> py_in rid []"
    by (simp add: py_in_def)
  from loop_reaches_update [OF reach key ids absent req_def, of post]
  obtain out rest where "add_fix_version_loop cfg srv rid (pre @ JObj kvs # post) t =
           (out, t1 @ Http req (srv (requests_of t1) req) # rest)"
    by blast
  moreover have "req_method req = PUT" "req_url req = Url (jira_base_url cfg) (IssuePath key)"
    "req_json req = Some (JObj [(''fields'', JObj [(''fixVersions'', JArr [JObj [(''id'', rid)]])])])"
    by (simp_all add: req_def build_request_def fix_versions_data_def)
  ultimately show ?thesis using ids by auto
qed

theorem attach_defaults_missing_versions_witness:
  "current_fix_version_ids bare_issue = Inr [] \<and>
   (\<exists>req out rest.
      add_fix_version_to_tickets scenario_config scenario_server (JStr ''10050'')
          (JArr [scenario_issue1, bare_issue, scenario_issue2]) [] =
        (out,
         [Http (build_request scenario_config
                  (Url ''https://your-jira-instance.atlassian.net'' (IssuePath (JStr ''PROJ-1'')))
                  PUT None (Some (fix_versions_data [JStr ''10050''])))
               NoContent,
          Print (Added (JStr ''PROJ-1''))] @ Http req NoContent # rest) \<and>
      req_method req = PUT \<and>
      req_url req = Url ''https://your-jira-instance.atlassian.net'' (IssuePath (JStr ''PROJ-4'')) \<and>
      req_json req =
        Some (JObj [(''fields'', JObj [(''fixVersions'', JArr [JObj [(''id'', JStr ''10050'')]])])]))"
proof -
  let ?t1 = "[Http (build_request scenario_config
                 (Url ''https://your-jira-instance.atlassian.net'' (IssuePath (JStr ''PROJ-1'')))
                 PUT None (Some (fix_versions_data [JStr ''10050''])))
              NoContent,
         Print (Added (JStr ''PROJ-1''))]"
  have key: "map_of [(''key'', JStr ''PROJ-4'')] ''key'' = Some (JStr ''PROJ-4'')"
    by simp
  have nofields: "map_of [(''key'', JStr ''PROJ-4'')] ''fields'' = None \<or>
         (\<exists>f. map_of [(''key'', JStr ''PROJ-4'')] ''fields'' = Some (JObj f) \<and> map_of f ''fixVersions'' = None)"
    by simp
  from attach_defaults_missing_versions [OF scenario_first_ticket key nofields, of "[scenario_issue2]"]
  obtain req out rest where
    ids: "current_fix_version_ids (JObj [(''key'', JStr ''PROJ-4'')]) = Inr []"
    and run: "add_fix_version_to_tickets scenario_config scenario_server (JStr ''10050'')
            (JArr ([scenario_issue1] @ JObj [(''key'', JStr ''PROJ-4'')] # [scenario_issue2])) [] =
          (out, ?t1 @ Http req (scenario_server (requests_of ?t1) req) # rest)"
    and req: "req_method req = PUT"
      "req_url req = Url (jira_base_url scenario_config) (IssuePath (JStr ''PROJ-4''))"
      "req_json req = Some (JObj [(''fields'', JObj [(''fixVersions'', JArr [JObj [(''id'', JStr ''10050'')]])])])"
    by blast
  from req(2) have "scenario_server (requests_of ?t1) req = NoContent"
    by (simp add: scenario_server_def)
  with run req ids show ?thesis
    by (intro conjI exI [of _ req] exI [of _ out] exI [of _ rest]) (simp_all add: scenario_config_def bare_issue_def)
qed

text \<open>
  C5. When the environment has no username or no API token, the process prints the
  credentials error and exits with code 1, and no request has been sent.
\<close>

theorem missing_credentials_exit:
  assumes "env ''JIRA_USERNAME'' = None \<or> env ''JIRA_API_TOKEN'' = None"
  shows "main rname pname status env today srv = (Inl (SysExit 1), [Print ErrCredentials]) \<and>
         exit_code (fst (main rname pname status env today srv)) \<noteq> 0 \<and>
         requests_of (snd (main rname pname status env today srv)) = []"
proof -
  from assms have "main rname pname status env today srv = (Inl (SysExit 1), [Print ErrCredentials])"
    by (auto simp: main_def init_def split: option.splits)
  then show ?thesis by simp
qed

theorem missing_credentials_exit_witness:
  "main ''v1.2.3'' ''PROJ'' ''Ready for Release'' [''JIRA_USERNAME'' \<mapsto> ''jdoe@example.com'']
       ''2024-05-01'' scenario_server = (Inl (SysExit 1), [Print ErrCredentials]) \<and>
   exit_code (fst (main ''v1.2.3'' ''PROJ'' ''Ready for Release'' [''JIRA_USERNAME'' \<mapsto> ''jdoe@example.com'']
       ''2024-05-01'' scenario_server)) \<noteq> 0 \<and>
   requests_of (snd (main ''v1.2.3'' ''PROJ'' ''Ready for Release'' [''JIRA_USERNAME'' \<mapsto> ''jdoe@example.com'']
       ''2024-05-01'' scenario_server)) = []"
proof -
  have "[''JIRA_USERNAME'' \<mapsto> ''jdoe@example.com''] ''JIRA_USERNAME'' = None \<or>
        [''JIRA_USERNAME'' \<mapsto> ''jdoe@example.com''] ''JIRA_API_TOKEN'' = None"
    by simp
  from missing_credentials_exit [OF this] show ?thesis .
qed

section \<open>The phases of a run\<close>

lemma create_release_cases:
  assumes "create_release cfg today srv t = (out, t')"
  obtains
    (user_failed) msgs where
      "is_failed (srv (requests_of t) (user_request cfg))"
      "out = Inl (SysExit 1)"
      "t' = t @ Http (user_request cfg) (srv (requests_of t) (user_request cfg)) # map Print msgs"
  | (owner_raised) cu e where
      "reply_value (srv (requests_of t) (user_request cfg)) = Some cu"
      "owner_entry cu = Inl e"
      "out = Inl (Uncaught e)"
      "t' = t @ [Http (user_request cfg) (srv (requests_of t) (user_request cfg))]"
  | (creation_failed) cu owner msgs where
      "reply_value (srv (requests_of t) (user_request cfg)) = Some cu"
      "owner_entry cu = Inr owner"
      "is_failed (srv (requests_of t @ [user_request cfg]) (creation_request cfg today owner))"
      "out = Inl (SysExit 1)"
      "t' = t @ Http (user_request cfg) (srv (requests_of t) (user_request cfg)) #
              Print (Creating (release_name cfg) (project_name cfg)) #
              Http (creation_request cfg today owner)
                   (srv (requests_of t @ [user_request cfg]) (creation_request cfg today owner)) #
              map Print msgs"
  | (not_object) cu owner rel where
      "reply_value (srv (requests_of t) (user_request cfg)) = Some cu"
      "owner_entry cu = Inr owner"
      "reply_value (srv (requests_of t @ [user_request cfg]) (creation_request cfg today owner)) = Some rel"
      "\<And>kvs. rel \<noteq> JObj kvs"
      "out = Inl (Uncaught AttributeError)"
      "t' = t @ [Http (user_request cfg) (srv (requests_of t) (user_request cfg)),
                Print (Creating (release_name cfg) (project_name cfg)),
                Http (creation_request cfg today owner)
                     (srv (requests_of t @ [user_request cfg]) (creation_request cfg today owner))]"
  | (created) cu owner kvs where
      "reply_value (srv (requests_of t) (user_request cfg)) = Some cu"
      "owner_entry cu = Inr owner"
      "reply_value (srv (requests_of t @ [user_request cfg]) (creation_request cfg today owner)) = Some (JObj kvs)"
      "out = Inr (JObj kvs)"
      "t' = t @ [Http (user_request cfg) (srv (requests_of t) (user_request cfg)),
                Print (Creating (release_name cfg) (project_name cfg)),
                Http (creation_request cfg today owner)
                     (srv (requests_of t @ [user_request cfg]) (creation_request cfg today owner)),
                Print (Created (case map_of kvs ''name'' of None \<Rightarrow> JStr (release_name cfg) | Some v \<Rightarrow> v))]"
proof -
  let ?r0 = "user_request cfg"
  let ?rep0 = "srv (requests_of t) ?r0"
  obtain o0 t0 where m0: "make_jira_request cfg srv (Url (jira_base_url cfg) MyselfPath) GET None None t = (o0, t0)"
    by (cases "make_jira_request cfg srv (Url (jira_base_url cfg) MyselfPath) GET None None t") auto
  from make_jira_request_sent [OF _ m0]
  obtain msgs0 where t0: "t0 = t @ Http ?r0 ?rep0 # map Print msgs0"
    and o0: "case reply_value ?rep0 of None \<Rightarrow> o0 = Inl (SysExit 1) | Some v \<Rightarrow> o0 = Inr v \<and> msgs0 = []"
    by (auto simp: user_request_def)
  show thesis
  proof (cases "reply_value ?rep0")
    case None
    with o0 t0 m0 assms have "out = Inl (SysExit 1)" "t' = t @ Http ?r0 ?rep0 # map Print msgs0"
      by (simp_all add: create_release_def get_current_user_def)
    with None show thesis by (intro user_failed) (simp_all add: reply_value_None)
  next
    case (Some cu)
    with o0 t0 have o0': "o0 = Inr cu" and t0': "t0 = t @ [Http ?r0 ?rep0]" by simp_all
    show thesis
    proof (cases "owner_entry cu")
      case (Inl e)
      with o0' t0' m0 assms have "out = Inl (Uncaught e)" "t' = t @ [Http ?r0 ?rep0]"
        by (simp_all add: create_release_def get_current_user_def)
      with Some Inl show thesis by (intro owner_raised)
    next
      case (Inr owner)
      let ?r1 = "creation_request cfg today owner"
      let ?t1 = "t0 @ [Print (Creating (release_name cfg) (project_name cfg))]"
      let ?rep1 = "srv (requests_of t @ [?r0]) ?r1"
      have rq: "requests_of ?t1 = requests_of t @ [?r0]"
        by (simp add: t0' requests_of_append)
      obtain o1 t1 where m1: "make_jira_request cfg srv (Url (jira_base_url cfg) VersionPath) POST None
          (Some (JObj ([(''name'', JStr (release_name cfg)),
                     (''project'', JStr (project_name cfg)),
                     (''released'', JBool False),
                     (''userReleaseDate'', JStr today),
                     (''projectId'', JNull)] @ owner))) ?t1 = (o1, t1)"
        by (cases "make_jira_request cfg srv (Url (jira_base_url cfg) VersionPath) POST None
          (Some (JObj ([(''name'', JStr (release_name cfg)),
                     (''project'', JStr (project_name cfg)),
                     (''released'', JBool False),
                     (''userReleaseDate'', JStr today),
                     (''projectId'', JNull)] @ owner))) ?t1") auto
      from make_jira_request_sent [OF _ m1]
      obtain msgs1 where t1: "t1 = ?t1 @ Http ?r1 ?rep1 # map Print msgs1"
        and o1: "case reply_value ?rep1 of None \<Rightarrow> o1 = Inl (SysExit 1) | Some v \<Rightarrow> o1 = Inr v \<and> msgs1 = []"
        unfolding rq by (auto simp: creation_request_def)
      from assms o0' m0 Inr m1 have res: "(out, t') =
          (case o1 of Inl a \<Rightarrow> (Inl a, t1)
           | Inr response \<Rightarrow>
               (case py_get response ''name'' (JStr (release_name cfg)) of
                  Inl e \<Rightarrow> (Inl (Uncaught e), t1)
                | Inr n \<Rightarrow> (Inr response, t1 @ [Print (Created n)])))"
        by (simp add: create_release_def get_current_user_def Let_def)
      show thesis
      proof (cases "reply_value ?rep1")
        case None
        with o1 t1 res have "out = Inl (SysExit 1)" "t' = ?t1 @ Http ?r1 ?rep1 # map Print msgs1"
          by simp_all
        with None Some Inr t0' show thesis
          by (intro creation_failed [of cu owner msgs1]) (simp_all add: reply_value_None)
      next
        case rel: (Some rel)
        with o1 t1 have o1': "o1 = Inr rel" and t1': "t1 = ?t1 @ [Http ?r1 ?rep1]" by simp_all
        show thesis
        proof (cases rel)
          case (JObj kvs)
          with res o1' t1' t0' have "out = Inr (JObj kvs)"
            "t' = t @ [Http ?r0 ?rep0, Print (Creating (release_name cfg) (project_name cfg)),
                Http ?r1 ?rep1,
                Print (Created (case map_of kvs ''name'' of None \<Rightarrow> JStr (release_name cfg) | Some v \<Rightarrow> v))]"
            by simp_all
          with Some Inr rel JObj show thesis by (intro created [of cu owner kvs]) simp_all
        qed (use res o1' t1' t0' Some Inr rel in \<open>intro not_object [of cu owner rel]; simp\<close>)+
      qed
    qed
  qed
qed

lemma py_len_iter: "py_len v = Inr n \<Longrightarrow> \<exists>xs. py_iter v = Inr xs \<and> length xs = n"
  by (cases v) auto

lemma get_tickets_with_status_cases:
  assumes "get_tickets_with_status cfg srv t = (out, t')"
  obtains
    (query_failed) msgs where
      "is_failed (srv (requests_of t) (search_request cfg))"
      "out = Inl (SysExit 1)"
      "t' = t @ Http (search_request cfg) (srv (requests_of t) (search_request cfg)) # map Print msgs"
  | (query_raised) resp e where
      "reply_value (srv (requests_of t) (search_request cfg)) = Some resp"
      "py_get resp ''issues'' (JArr []) = Inl e \<or>
       (\<exists>issues. py_get resp ''issues'' (JArr []) = Inr issues \<and> py_len issues = Inl e)"
      "out = Inl (Uncaught e)"
      "t' = t @ [Http (search_request cfg) (srv (requests_of t) (search_request cfg))]"
  | (found) resp issues n where
      "reply_value (srv (requests_of t) (search_request cfg)) = Some resp"
      "py_get resp ''issues'' (JArr []) = Inr issues"
      "py_len issues = Inr n"
      "out = Inr issues"
      "t' = t @ [Http (search_request cfg) (srv (requests_of t) (search_request cfg)),
                Print (Found n (ticket_status cfg) (project_name cfg))]"
proof -
  let ?r2 = "search_request cfg"
  let ?rep2 = "srv (requests_of t) ?r2"
  let ?params = "[(''jql'', JStr (jql cfg)),
              (''fields'', JStr ''key,summary,status,fixVersions''),
              (''maxResults'', JInt 1000)]"
  obtain o2 t2 where m2: "make_jira_request cfg srv (Url (jira_base_url cfg) SearchPath) GET
       (Some ?params) None t = (o2, t2)"
    by (cases "make_jira_request cfg srv (Url (jira_base_url cfg) SearchPath) GET
       (Some ?params) None t") auto
  from make_jira_request_sent [OF _ m2]
  obtain msgs where t2: "t2 = t @ Http ?r2 ?rep2 # map Print msgs"
    and o2: "case reply_value ?rep2 of None \<Rightarrow> o2 = Inl (SysExit 1) | Some v \<Rightarrow> o2 = Inr v \<and> msgs = []"
    by (auto simp: search_request_def)
  from assms m2 have res: "(out, t') =
      (case o2 of Inl a \<Rightarrow> (Inl a, t2)
       | Inr response \<Rightarrow>
           (case py_get response ''issues'' (JArr []) of
              Inl e \<Rightarrow> (Inl (Uncaught e), t2)
            | Inr issues \<Rightarrow>
                (case py_len issues of
                   Inl e \<Rightarrow> (Inl (Uncaught e), t2)
                 | Inr n \<Rightarrow> (Inr issues, t2 @ [Print (Found n (ticket_status cfg) (project_name cfg))]))))"
    by (simp add: get_tickets_with_status_def Let_def)
  show thesis
  proof (cases "reply_value ?rep2")
    case None
    with o2 t2 res have "out = Inl (SysExit 1)" "t' = t @ Http ?r2 ?rep2 # map Print msgs"
      by simp_all
    with None show thesis by (intro query_failed [of msgs]) (simp_all add: reply_value_None)
  next
    case (Some resp)
    with o2 t2 have o2': "o2 = Inr resp" and t2': "t2 = t @ [Http ?r2 ?rep2]" by simp_all
    show thesis
    proof (cases "py_get resp ''issues'' (JArr [])")
      case (Inl e)
      with res o2' t2' have "out = Inl (Uncaught e)" "t' = t @ [Http ?r2 ?rep2]" by simp_all
      with Some Inl show thesis by (intro query_raised [of resp e]) simp_all
    next
      case (Inr issues)
      show thesis
      proof (cases "py_len issues")
        case (Inl e)
        with Inr res o2' t2' have "out = Inl (Uncaught e)" "t' = t @ [Http ?r2 ?rep2]" by simp_all
        with Some Inr Inl show thesis by (intro query_raised [of resp e]) simp_all
      next
        case n: (Inr n)
        with Inr res o2' t2' have "out = Inr issues"
          "t' = t @ [Http ?r2 ?rep2, Print (Found n (ticket_status cfg) (project_name cfg))]"
          by simp_all
        with Some Inr n show thesis by (intro found [of resp issues n]) simp_all
      qed
    qed
  qed
qed

lemma run_cases:
  assumes "run cfg today srv [] = (out, t')"
  obtains
    (user_failed) msgs where
      "is_failed (user_reply cfg srv)"
      "out = Inl (SysExit 1)"
      "t' = Print Starting # Http (user_request cfg) (user_reply cfg srv) # map Print msgs"
  | (owner_raised) cu e where
      "reply_value (user_reply cfg srv) = Some cu"
      "owner_entry cu = Inl e"
      "out = Inl (Uncaught e)"
      "t' = [Print Starting, Http (user_request cfg) (user_reply cfg srv)]"
  | (creation_failed) cu owner msgs where
      "reply_value (user_reply cfg srv) = Some cu"
      "owner_entry cu = Inr owner"
      "is_failed (creation_reply cfg today srv owner)"
      "out = Inl (SysExit 1)"
      "t' = creation_trace cfg today srv owner @ map Print msgs"
  | (not_object) cu owner rel where
      "reply_value (user_reply cfg srv) = Some cu"
      "owner_entry cu = Inr owner"
      "reply_value (creation_reply cfg today srv owner) = Some rel"
      "\<And>kvs. rel \<noteq> JObj kvs"
      "out = Inl (Uncaught AttributeError)"
      "t' = creation_trace cfg today srv owner"
  | (no_release_id) cu owner kvs where
      "reply_value (user_reply cfg srv) = Some cu"
      "owner_entry cu = Inr owner"
      "reply_value (creation_reply cfg today srv owner) = Some (JObj kvs)"
      "\<not> truthy (case map_of kvs ''id'' of None \<Rightarrow> JNull | Some v \<Rightarrow> v)"
      "out = Inl (SysExit 1)"
      "t' = creation_trace cfg today srv owner @
            [Print (Created (case map_of kvs ''name'' of None \<Rightarrow> JStr (release_name cfg) | Some v \<Rightarrow> v)),
             Print ErrReleaseId]"
  | (query_failed) cu owner kvs rid msgs where
      "reply_value (user_reply cfg srv) = Some cu"
      "owner_entry cu = Inr owner"
      "reply_value (creation_reply cfg today srv owner) = Some (JObj kvs)"
      "map_of kvs ''id'' = Some rid" "truthy rid"
      "is_failed (search_reply cfg today srv owner)"
      "out = Inl (SysExit 1)"
      "t' = query_trace cfg today srv owner kvs @ map Print msgs"
  | (query_raised) cu owner kvs rid resp e where
      "reply_value (user_reply cfg srv) = Some cu"
      "owner_entry cu = Inr owner"
      "reply_value (creation_reply cfg today srv owner) = Some (JObj kvs)"
      "map_of kvs ''id'' = Some rid" "truthy rid"
      "reply_value (search_reply cfg today srv owner) = Some resp"
      "py_get resp ''issues'' (JArr []) = Inl e \<or>
       (\<exists>issues. py_get resp ''issues'' (JArr []) = Inr issues \<and> py_len issues = Inl e)"
      "out = Inl (Uncaught e)"
      "t' = query_trace cfg today srv owner kvs"
  | (loop_aborted) cu owner kvs rid resp issues xs a where
      "reply_value (user_reply cfg srv) = Some cu"
      "owner_entry cu = Inr owner"
      "reply_value (creation_reply cfg today srv owner) = Some (JObj kvs)"
      "map_of kvs ''id'' = Some rid" "truthy rid"
      "reply_value (search_reply cfg today srv owner) = Some resp"
      "py_get resp ''issues'' (JArr []) = Inr issues"
      "py_len issues = Inr (length xs)" "py_iter issues = Inr xs"
      "add_fix_version_loop cfg srv rid xs
         (query_trace cfg today srv owner kvs @
          [Print (Found (length xs) (ticket_status cfg) (project_name cfg))]) = (Inl a, t')"
      "out = Inl a"
  | (completed) cu owner kvs rid resp issues xs lt where
      "reply_value (user_reply cfg srv) = Some cu"
      "owner_entry cu = Inr owner"
      "reply_value (creation_reply cfg today srv owner) = Some (JObj kvs)"
      "map_of kvs ''id'' = Some rid" "truthy rid"
      "reply_value (search_reply cfg today srv owner) = Some resp"
      "py_get resp ''issues'' (JArr []) = Inr issues"
      "py_len issues = Inr (length xs)" "py_iter issues = Inr xs"
      "add_fix_version_loop cfg srv rid xs
         (query_trace cfg today srv owner kvs @
          [Print (Found (length xs) (ticket_status cfg) (project_name cfg))]) = (Inr (), lt)"
      "out = Inr ()"
      "t' = lt @ [Print Completed, Print (Summary (release_name cfg) (length xs))]"
proof -
  obtain o1 t1 where cr: "create_release cfg today srv [Print Starting] = (o1, t1)"
    by (cases "create_release cfg today srv [Print Starting]") auto
  from assms cr have res: "(out, t') =
     (case o1 of
        Inl a \<Rightarrow> (Inl a, t1)
      | Inr release \<Rightarrow>
          (case py_get release ''id'' JNull of
             Inl e \<Rightarrow> (Inl (Uncaught e), t1)
           | Inr release_id \<Rightarrow>
               if \<not> truthy release_id then (Inl (SysExit 1), t1 @ [Print ErrReleaseId])
               else
                 (case get_tickets_with_status cfg srv t1 of
                    (Inl a, t2) \<Rightarrow> (Inl a, t2)
                  | (Inr issues, t2) \<Rightarrow>
                      (case add_fix_version_to_tickets cfg srv release_id issues t2 of
                         (Inl a, t3) \<Rightarrow> (Inl a, t3)
                       | (Inr u, t3) \<Rightarrow>
                           (case py_len issues of
                              Inl e \<Rightarrow> (Inl (Uncaught e), t3 @ [Print Completed])
                            | Inr n \<Rightarrow>
                                (Inr (), t3 @ [Print Completed, Print (Summary (release_name cfg) n)]))))))"
    by (simp add: run_def)
  from cr show thesis
  proof (cases rule: create_release_cases)
    case (user_failed msgs)
    with res show thesis by (intro that(1) [of msgs]) (simp_all add: user_reply_def)
  next
    case (owner_raised cu e)
    with res show thesis by (intro that(2) [of cu e]) (simp_all add: user_reply_def)
  next
    case (creation_failed cu owner msgs)
    with res show thesis
      by (intro that(3) [of cu owner msgs])
         (simp_all add: user_reply_def creation_reply_def creation_trace_def)
  next
    case (not_object cu owner rel)
    with res show thesis
      by (intro that(4) [of cu owner rel])
         (simp_all add: user_reply_def creation_reply_def creation_trace_def)
  next
    case (created cu owner kvs)
    let ?nm = "case map_of kvs ''name'' of None \<Rightarrow> JStr (release_name cfg) | Some v \<Rightarrow> v"
    have t1: "t1 = creation_trace cfg today srv owner @ [Print (Created ?nm)]"
      using created(5) by (simp add: user_reply_def creation_reply_def creation_trace_def)
    have facts: "reply_value (user_reply cfg srv) = Some cu"
      "reply_value (creation_reply cfg today srv owner) = Some (JObj kvs)"
      using created(1,3) by (simp_all add: user_reply_def creation_reply_def)
    let ?rid = "case map_of kvs ''id'' of None \<Rightarrow> JNull | Some v \<Rightarrow> v"
    show thesis
    proof (cases "truthy ?rid")
      case False
      with res created(4) t1 have "out = Inl (SysExit 1)"
        "t' = creation_trace cfg today srv owner @ [Print (Created ?nm), Print ErrReleaseId]"
        by simp_all
      with False facts created(2) show thesis by (intro that(5) [of cu owner kvs]) simp_all
    next
      case True
      then obtain rid where rid: "map_of kvs ''id'' = Some rid" "truthy rid"
        by (cases "map_of kvs ''id''") auto
      have rq: "requests_of t1 = [user_request cfg, creation_request cfg today owner]"
        by (simp add: t1 creation_trace_def)
      obtain o2 t2 where gt: "get_tickets_with_status cfg srv t1 = (o2, t2)"
        by (cases "get_tickets_with_status cfg srv t1") auto
      from res created(4) rid gt have res2: "(out, t') =
          (case o2 of Inl a \<Rightarrow> (Inl a, t2)
           | Inr issues \<Rightarrow>
               (case add_fix_version_to_tickets cfg srv rid issues t2 of
                  (Inl a, t3) \<Rightarrow> (Inl a, t3)
                | (Inr u, t3) \<Rightarrow>
                    (case py_len issues of
                       Inl e \<Rightarrow> (Inl (Uncaught e), t3 @ [Print Completed])
                     | Inr n \<Rightarrow>
                         (Inr (), t3 @ [Print Completed, Print (Summary (release_name cfg) n)]))))"
        by simp
      from gt show thesis
      proof (cases rule: get_tickets_with_status_cases)
        case (query_failed msgs)
        with res2 rq t1 have "out = Inl (SysExit 1)"
          "t' = query_trace cfg today srv owner kvs @ map Print msgs"
          "is_failed (search_reply cfg today srv owner)"
          by (simp_all add: query_trace_def search_reply_def)
        with facts created(2) rid show thesis by (intro that(6) [of cu owner kvs rid msgs]) simp_all
      next
        case (query_raised resp e)
        with res2 rq t1 have "out = Inl (Uncaught e)"
          "t' = query_trace cfg today srv owner kvs"
          "reply_value (search_reply cfg today srv owner) = Some resp"
          by (simp_all add: query_trace_def search_reply_def)
        with facts created(2) rid query_raised(2) show thesis
          by (intro that(7) [of cu owner kvs rid resp e]) simp_all
      next
        case (found resp issues n)
        from py_len_iter [OF found(3)] obtain xs where xs: "py_iter issues = Inr xs" "length xs = n"
          by blast
        have t2: "t2 = query_trace cfg today srv owner kvs @
                    [Print (Found (length xs) (ticket_status cfg) (project_name cfg))]"
          and sr: "reply_value (search_reply cfg today srv owner) = Some resp"
          using found(1,5) rq t1 xs by (simp_all add: query_trace_def search_reply_def)
        obtain lo lt where lp: "add_fix_version_loop cfg srv rid xs t2 = (lo, lt)"
          by (cases "add_fix_version_loop cfg srv rid xs t2") auto
        from res2 found(3,4) xs lp have res3: "(out, t') =
            (case lo of Inl a \<Rightarrow> (Inl a, lt)
             | Inr u \<Rightarrow> (Inr (), lt @ [Print Completed, Print (Summary (release_name cfg) (length xs))]))"
          by (simp add: add_fix_version_to_tickets_def split: sum.splits)
        show thesis
        proof (cases lo)
          case (Inl a)
          with res3 lp t2 have "out = Inl a"
            "add_fix_version_loop cfg srv rid xs (query_trace cfg today srv owner kvs @
                    [Print (Found (length xs) (ticket_status cfg) (project_name cfg))]) = (Inl a, t')"
            by simp_all
          with facts created(2) rid sr found(2,3) xs show thesis
            by (intro that(8) [of cu owner kvs rid resp issues xs a]) simp_all
        next
          case (Inr u)
          with res3 lp t2 have "out = Inr ()"
            "t' = lt @ [Print Completed, Print (Summary (release_name cfg) (length xs))]"
            "add_fix_version_loop cfg srv rid xs (query_trace cfg today srv owner kvs @
                    [Print (Found (length xs) (ticket_status cfg) (project_name cfg))]) = (Inr (), lt)"
            by simp_all
          with facts created(2) rid sr found(2,3) xs show thesis
            by (intro that(9) [of cu owner kvs rid resp issues xs lt]) simp_all
        qed
      qed
    qed
  qed
qed

lemma main_cases:
  assumes "main rname pname status env today srv = (out, t')"
  obtains
    (no_credentials) "out = Inl (SysExit 1)" "t' = [Print ErrCredentials]"
  | (started) cfg where "release_name cfg = rname" "run cfg today srv [] = (out, t')"
proof (cases "init rname pname status env []")
  case (Pair o1 t1)
  show thesis
  proof (cases o1)
    case (Inl a)
    with Pair have "o1 = Inl (SysExit 1)" "t1 = [Print ErrCredentials]"
      by (auto simp: init_def Let_def split: option.splits if_splits)
    with Pair assms show thesis by (intro no_credentials) (simp_all add: main_def)
  next
    case (Inr cfg)
    with Pair have "release_name cfg = rname" "t1 = []"
      by (auto simp: init_def Let_def split: option.splits if_splits)
    with Pair Inr assms show thesis by (intro started [of cfg]) (simp_all add: main_def)
  qed
qed

section \<open>The end-to-end scenario, run\<close>

lemma scenario_main:
  "main ''v1.2.3'' ''PROJ'' ''Ready for Release'' scenario_env today scenario_server =
     (Inr (),
      [Print Starting,
       Http (build_request scenario_config (Url (jira_base_url scenario_config) MyselfPath) GET None None)
            (Content (JObj [(''key'', JStr ''jdoe'')])),
       Print (Creating ''v1.2.3'' ''PROJ''),
       Http (build_request scenario_config (Url (jira_base_url scenario_config) VersionPath) POST None
               (Some (JObj [(''name'', JStr ''v1.2.3''), (''project'', JStr ''PROJ''),
                            (''released'', JBool False), (''userReleaseDate'', JStr today),
                            (''projectId'', JNull), (''owner'', JStr ''jdoe'')])))
            (Content (JObj [(''id'', JStr ''10050''), (''name'', JStr ''v1.2.3'')])),
       Print (Created (JStr ''v1.2.3'')),
       Http (build_request scenario_config (Url (jira_base_url scenario_config) SearchPath) GET
               (Some [(''jql'', JStr (jql scenario_config)),
                      (''fields'', JStr ''key,summary,status,fixVersions''),
                      (''maxResults'', JInt 1000)]) None)
            (Content (JObj [(''issues'', JArr scenario_issues)])),
       Print (Found 2 ''Ready for Release'' ''PROJ''),
       Http (build_request scenario_config (Url (jira_base_url scenario_config) (IssuePath (JStr ''PROJ-1''))) PUT None
               (Some (fix_versions_data [JStr ''10050''])))
            NoContent,
       Print (Added (JStr ''PROJ-1'')),
       Http (build_request scenario_config (Url (jira_base_url scenario_config) (IssuePath (JStr ''PROJ-2''))) PUT None
               (Some (fix_versions_data [JStr ''9000'', JStr ''10050''])))
            NoContent,
       Print (Added (JStr ''PROJ-2'')),
       Print Completed,
       Print (Summary ''v1.2.3'' 2)])"
proof -
  have cfg: "init ''v1.2.3'' ''PROJ'' ''Ready for Release'' scenario_env [] = (Inr scenario_config, [])"
    by (simp add: init_def scenario_env_def scenario_config_def)
  show ?thesis
    unfolding main_def cfg
    by (simp add: run_def create_release_def get_current_user_def owner_entry_def
        get_tickets_with_status_def make_jira_request_def build_request_def
        add_fix_version_to_ticket_def current_fix_version_ids_def fix_versions_data_def py_in_def
        scenario_server_def scenario_issues_def scenario_issue1_def scenario_issue2_def
        scenario_config_def)
qed

text \<open>
  C4. The end-to-end scenario: the run ends normally, its two ticket updates are PUTs for
  PROJ-1 with \<open>fixVersions\<close> \<open>[{id: 10050}]\<close> and for PROJ-2 with
  \<open>[{id: 9000}, {id: 10050}]\<close>, and its last line is the summary with the count 2.
\<close>

theorem end_to_end_scenario:
  "fst (main ''v1.2.3'' ''PROJ'' ''Ready for Release'' scenario_env today scenario_server) = Inr () \<and>
   map (\<lambda>r. (req_method r, url_path (req_url r), req_json r))
     (filter is_update
        (requests_of (snd (main ''v1.2.3'' ''PROJ'' ''Ready for Release'' scenario_env today scenario_server)))) =
     [(PUT, IssuePath (JStr ''PROJ-1''),
       Some (JObj [(''fields'', JObj [(''fixVersions'', JArr [JObj [(''id'', JStr ''10050'')]])])])),
      (PUT, IssuePath (JStr ''PROJ-2''),
       Some (JObj [(''fields'', JObj [(''fixVersions'',
          JArr [JObj [(''id'', JStr ''9000'')], JObj [(''id'', JStr ''10050'')]])])]))] \<and>
   last (snd (main ''v1.2.3'' ''PROJ'' ''Ready for Release'' scenario_env today scenario_server)) =
     Print (Summary ''v1.2.3'' 2)"
  unfolding scenario_main
  by (simp add: is_update_def build_request_def fix_versions_data_def)

section \<open>Failures, and what a run sends\<close>

lemma request_kinds [simp]:
  "is_creation (user_request cfg) = False"
  "is_creation (creation_request cfg today owner) = True"
  "is_creation (search_request cfg) = False"
  "is_query (user_request cfg) = False"
  "is_query (creation_request cfg today owner) = False"
  "is_query (search_request cfg) = True"
  "is_update (user_request cfg) = False"
  "is_update (creation_request cfg today owner) = False"
  "is_update (search_request cfg) = False"
  by (simp_all add: is_creation_def is_query_def is_update_def user_request_def
        creation_request_def search_request_def build_request_def)

lemma update_kinds: "is_update r \<Longrightarrow> \<not> is_creation r \<and> \<not> is_query r"
  by (auto simp: is_update_def is_creation_def is_query_def split: path.splits)

lemma quiet_Nil [simp]: "quiet []"
  by (simp add: quiet_def)

lemma quiet_Print [simp]: "quiet (Print m # t) = quiet t"
  by (simp add: quiet_def)

lemma quiet_Http [simp]: "quiet (Http r rep # t) = (\<not> is_failed rep \<and> quiet t)"
  by (simp add: quiet_def)

lemma quiet_append [simp]: "quiet (a @ b) = (quiet a \<and> quiet b)"
  by (simp add: quiet_def)





lemma loop_trace_quiet:
  assumes "add_fix_version_loop cfg srv rid xs t = (out, t')"
  obtains suf where "t' = t @ suf" "list_all is_update (requests_of suf)"
    "quiet suf \<or> (out = Inl (SysExit 1) \<and>
       (\<exists>s r rep msgs. suf = s @ Http r rep # map Print msgs \<and> quiet s))"
    "(\<exists>u. out = Inr u) \<Longrightarrow> quiet suf \<and>
       length (requests_of suf) + length (filter is_skip suf) = length xs"
proof -
  from loop_trace [OF assms] obtain suf where
    a: "t' = t @ suf" and b: "list_all is_update (requests_of suf)" and
    c: "case out of
          Inr u \<Rightarrow> (\<forall>e \<in> set suf. \<not> is_failure e) \<and>
                   length (requests_of suf) + length (filter is_skip suf) = length xs
        | Inl a \<Rightarrow> (\<forall>e \<in> set suf. \<not> is_failure e) \<or>
                   a = SysExit 1 \<and>
                   (\<exists>s1 r rep msgs. suf = s1 @ Http r rep # map Print msgs \<and> is_failed rep \<and>
                      (\<forall>e \<in> set s1. \<not> is_failure e))"
    by blast
  show thesis
  proof (rule that [OF a b])
    show "quiet suf \<or> (out = Inl (SysExit 1) \<and>
       (\<exists>s r rep msgs. suf = s @ Http r rep # map Print msgs \<and> quiet s))"
      using c by (cases out) (auto simp: quiet_def list_all_iff)
    show "(\<exists>u. out = Inr u) \<Longrightarrow> quiet suf \<and>
       length (requests_of suf) + length (filter is_skip suf) = length xs"
      using c by (auto simp: quiet_def list_all_iff)
  qed
qed



lemma update_in_suffix:
  assumes "list_all is_update (requests_of suf)" and "Http r rep \<in> set suf"
  shows "is_update r"
  using assms requests_of_mem [of r suf] by (auto simp: list_all_iff)

lemma requests_of_creation_trace [simp]:
  "requests_of (creation_trace cfg today srv owner) = [user_request cfg, creation_request cfg today owner]"
  by (simp add: creation_trace_def)

lemma requests_of_query_trace [simp]:
  "requests_of (query_trace cfg today srv owner kvs) =
     [user_request cfg, creation_request cfg today owner, search_request cfg]"
  by (simp add: query_trace_def requests_of_append)

text \<open>The exchanges of the trace up to the creation request and up to the ticket query.\<close>

lemma http_in_creation_trace:
  "Http r rep \<in> set (creation_trace cfg today srv owner) \<longleftrightarrow>
     (r = user_request cfg \<and> rep = user_reply cfg srv) \<or>
     (r = creation_request cfg today owner \<and> rep = creation_reply cfg today srv owner)"
  by (auto simp: creation_trace_def)

lemma http_in_query_trace:
  "Http r rep \<in> set (query_trace cfg today srv owner kvs) \<longleftrightarrow>
     (r = user_request cfg \<and> rep = user_reply cfg srv) \<or>
     (r = creation_request cfg today owner \<and> rep = creation_reply cfg today srv owner) \<or>
     (r = search_request cfg \<and> rep = search_reply cfg today srv owner)"
  by (auto simp: query_trace_def http_in_creation_trace)

lemma http_in_prints [simp]: "Http r rep \<notin> set (map Print msgs)"
  by auto

lemma has_id_not_omitted:
  "reply_value rep = Some (JObj kvs) \<Longrightarrow> map_of kvs ''id'' = Some rid \<Longrightarrow> \<not> omits_id rep"
  by (simp add: omits_id_def)

lemma failed_not_omitted: "is_failed rep \<Longrightarrow> \<not> omits_id rep"
  using reply_value_None [of rep] by (simp add: omits_id_def)

text \<open>
  C3. When the reply to the release-creation request omits the id, the process exits with
  a nonzero code, and the run has sent no ticket query and no ticket update.
\<close>

theorem missing_release_id_aborts:
  assumes "main rname pname status env today srv = (out, tr)"
    and "Http r rep \<in> set tr"
    and "is_creation r"
    and "omits_id rep"
  shows "exit_code out \<noteq> 0 \<and>
         filter is_query (requests_of tr) = [] \<and> filter is_update (requests_of tr) = []"
  using assms(1)
proof (cases rule: main_cases)
  case no_credentials
  with assms(2) show ?thesis by simp
next
  case (started cfg)
  from started(2) show ?thesis
  proof (cases rule: run_cases)
    case (user_failed msgs)
    with assms(2,3) show ?thesis by auto
  next
    case (owner_raised cu e)
    with assms(2,3) show ?thesis by auto
  next
    case (creation_failed cu owner msgs)
    with assms(2,3,4) show ?thesis
      by (auto simp: http_in_creation_trace failed_not_omitted)
  next
    case (not_object cu owner rel)
    then show ?thesis by simp
  next
    case (no_release_id cu owner kvs)
    then show ?thesis by (simp add: requests_of_append)
  next
    case (query_failed cu owner kvs rid msgs)
    with assms(2,3,4) show ?thesis
      by (auto simp: http_in_query_trace has_id_not_omitted)
  next
    case (query_raised cu owner kvs rid resp e)
    with assms(2,3,4) show ?thesis
      by (auto simp: http_in_query_trace has_id_not_omitted)
  next
    case (loop_aborted cu owner kvs rid resp issues xs a)
    from loop_aborted(10) obtain suf where
      tr: "tr = (query_trace cfg today srv owner kvs @
          [Print (Found (length xs) (ticket_status cfg) (project_name cfg))]) @ suf"
      and upd: "list_all is_update (requests_of suf)"
      by (cases rule: loop_trace_quiet) blast
    from assms(2) tr have "Http r rep \<in> set (query_trace cfg today srv owner kvs) \<or> Http r rep \<in> set suf"
      by auto
    then show ?thesis
    proof
      assume "Http r rep \<in> set (query_trace cfg today srv owner kvs)"
      with assms(3,4) loop_aborted(3,4) show ?thesis
        by (auto simp: http_in_query_trace has_id_not_omitted)
    next
      assume "Http r rep \<in> set suf"
      from update_in_suffix [OF upd this] assms(3) show ?thesis by (simp add: update_kinds)
    qed
  next
    case (completed cu owner kvs rid resp issues xs lt)
    from completed(10) obtain suf where
      lt: "lt = (query_trace cfg today srv owner kvs @
          [Print (Found (length xs) (ticket_status cfg) (project_name cfg))]) @ suf"
      and upd: "list_all is_update (requests_of suf)"
      by (cases rule: loop_trace_quiet) blast
    from assms(2) lt completed(12)
    have "Http r rep \<in> set (query_trace cfg today srv owner kvs) \<or> Http r rep \<in> set suf"
      by auto
    then show ?thesis
    proof
      assume "Http r rep \<in> set (query_trace cfg today srv owner kvs)"
      with assms(3,4) completed(3,4) show ?thesis
        by (auto simp: http_in_query_trace has_id_not_omitted)
    next
      assume "Http r rep \<in> set suf"
      from update_in_suffix [OF upd this] assms(3) show ?thesis by (simp add: update_kinds)
    qed
  qed
qed

lemmas run_defs =
  main_def init_def run_def create_release_def get_current_user_def owner_entry_def
  get_tickets_with_status_def make_jira_request_def build_request_def
  add_fix_version_to_tickets_def add_fix_version_to_ticket_def current_fix_version_ids_def
  fix_versions_data_def py_in_def response_truthy_def
  user_request_def creation_request_def search_request_def

lemmas scenario_data_defs =
  scenario_env_def scenario_config_def scenario_issues_def scenario_issue1_def
  scenario_issue2_def tagged_issue_def bare_issue_def tracker_def

text \<open>A run whose creation reply has a name and no id.\<close>

lemma idless_main:
  "main ''v1.2.3'' ''PROJ'' ''Ready for Release'' scenario_env ''2024-05-01''
       (tracker (Content (JObj [(''name'', JStr ''v1.2.3'')])) NoContent NoContent) =
     (Inl (SysExit 1),
      [Print Starting,
       Http (user_request scenario_config) (Content (JObj [(''key'', JStr ''jdoe'')])),
       Print (Creating ''v1.2.3'' ''PROJ''),
       Http (creation_request scenario_config ''2024-05-01'' [(''owner'', JStr ''jdoe'')])
            (Content (JObj [(''name'', JStr ''v1.2.3'')])),
       Print (Created (JStr ''v1.2.3'')),
       Print ErrReleaseId])"
  by (simp add: run_defs scenario_data_defs)

theorem missing_release_id_aborts_witness:
  "is_creation (creation_request scenario_config ''2024-05-01'' [(''owner'', JStr ''jdoe'')]) \<and>
   omits_id (Content (JObj [(''name'', JStr ''v1.2.3'')])) \<and>
   exit_code (Inl (SysExit 1) :: abort + unit) \<noteq> 0 \<and>
   filter is_query (requests_of (snd (main ''v1.2.3'' ''PROJ'' ''Ready for Release'' scenario_env ''2024-05-01''
       (tracker (Content (JObj [(''name'', JStr ''v1.2.3'')])) NoContent NoContent)))) = [] \<and>
   filter is_update (requests_of (snd (main ''v1.2.3'' ''PROJ'' ''Ready for Release'' scenario_env ''2024-05-01''
       (tracker (Content (JObj [(''name'', JStr ''v1.2.3'')])) NoContent NoContent)))) = []"
proof -
  let ?r = "creation_request scenario_config ''2024-05-01'' [(''owner'', JStr ''jdoe'')]"
  let ?rep = "Content (JObj [(''name'', JStr ''v1.2.3'')])"
  have sent: "Http ?r ?rep \<in> set
      [Print Starting,
       Http (user_request scenario_config) (Content (JObj [(''key'', JStr ''jdoe'')])),
       Print (Creating ''v1.2.3'' ''PROJ''),
       Http ?r ?rep,
       Print (Created (JStr ''v1.2.3'')),
       Print ErrReleaseId]"
    by simp
  have kind: "is_creation ?r" by simp
  have omitted: "omits_id ?rep" by (simp add: omits_id_def reply_value_def)
  from missing_release_id_aborts [OF idless_main sent kind omitted] kind omitted
  show ?thesis by (simp add: idless_main)
qed



section \<open>A query without tickets\<close>

lemma failed_no_issues: "is_failed rep \<Longrightarrow> \<not> returns_no_issues rep"
  using reply_value_None [of rep] by (simp add: returns_no_issues_def)

lemma no_issues_value:
  "reply_value rep = Some resp \<Longrightarrow> returns_no_issues rep \<Longrightarrow>
     py_get resp ''issues'' (JArr []) = Inr (JArr [])"
  by (simp add: returns_no_issues_def)

text \<open>
  C7. When the reply to the ticket query holds an empty list of issues, the run ends
  normally with exit code 0, sends no ticket update, and its last line is the summary with
  the count 0.
\<close>

theorem empty_query_completes:
  assumes "main rname pname status env today srv = (out, tr)"
    and "Http r rep \<in> set tr"
    and "is_query r"
    and "returns_no_issues rep"
  shows "out = Inr () \<and> exit_code out = 0 \<and> filter is_update (requests_of tr) = [] \<and>
         last tr = Print (Summary rname 0)"
  using assms(1)
proof (cases rule: main_cases)
  case no_credentials
  with assms(2) show ?thesis by simp
next
  case (started cfg)
  from started(2) show ?thesis
  proof (cases rule: run_cases)
    case (user_failed msgs)
    with assms(2,3) show ?thesis by auto
  next
    case (owner_raised cu e)
    with assms(2,3) show ?thesis by auto
  next
    case (creation_failed cu owner msgs)
    with assms(2,3) show ?thesis by (auto simp: http_in_creation_trace)
  next
    case (not_object cu owner rel)
    with assms(2,3) show ?thesis by (auto simp: http_in_creation_trace)
  next
    case (no_release_id cu owner kvs)
    with assms(2,3) show ?thesis by (auto simp: http_in_creation_trace)
  next
    case (query_failed cu owner kvs rid msgs)
    with assms(2,3,4) show ?thesis by (auto simp: http_in_query_trace failed_no_issues)
  next
    case (query_raised cu owner kvs rid resp e)
    from assms(2,3) query_raised(9) have "rep = search_reply cfg today srv owner"
      by (auto simp: http_in_query_trace)
    with no_issues_value [OF _ assms(4)] query_raised(6)
    have "py_get resp ''issues'' (JArr []) = Inr (JArr [])" by simp
    with query_raised(7) show ?thesis by auto
  next
    case (loop_aborted cu owner kvs rid resp issues xs a)
    from loop_aborted(10) obtain suf where
      tr: "tr = (query_trace cfg today srv owner kvs @
          [Print (Found (length xs) (ticket_status cfg) (project_name cfg))]) @ suf"
      and upd: "list_all is_update (requests_of suf)"
      by (cases rule: loop_trace_quiet) blast
    from assms(2) tr have "Http r rep \<in> set (query_trace cfg today srv owner kvs) \<or> Http r rep \<in> set suf"
      by auto
    then show ?thesis
    proof
      assume "Http r rep \<in> set (query_trace cfg today srv owner kvs)"
      with assms(3) have "rep = search_reply cfg today srv owner"
        by (auto simp: http_in_query_trace)
      with no_issues_value [OF _ assms(4)] loop_aborted(6)
      have "py_get resp ''issues'' (JArr []) = Inr (JArr [])" by simp
      with loop_aborted(7,9) have "xs = []" by auto
      with loop_aborted(10) show ?thesis by simp
    next
      assume "Http r rep \<in> set suf"
      from update_in_suffix [OF upd this] assms(3) show ?thesis by (simp add: update_kinds)
    qed
  next
    case (completed cu owner kvs rid resp issues xs lt)
    from completed(10) obtain suf where
      lt: "lt = (query_trace cfg today srv owner kvs @
          [Print (Found (length xs) (ticket_status cfg) (project_name cfg))]) @ suf"
      and upd: "list_all is_update (requests_of suf)"
      by (cases rule: loop_trace_quiet) blast
    from assms(2) lt completed(12)
    have "Http r rep \<in> set (query_trace cfg today srv owner kvs) \<or> Http r rep \<in> set suf"
      by auto
    then show ?thesis
    proof
      assume "Http r rep \<in> set (query_trace cfg today srv owner kvs)"
      with assms(3) have "rep = search_reply cfg today srv owner"
        by (auto simp: http_in_query_trace)
      with no_issues_value [OF _ assms(4)] completed(6)
      have "py_get resp ''issues'' (JArr []) = Inr (JArr [])" by simp
      with completed(7,9) have xs: "xs = []" by auto
      with completed(10) have "lt = query_trace cfg today srv owner kvs @
          [Print (Found 0 (ticket_status cfg) (project_name cfg))]" by simp
      with completed(11,12) xs started(1) show ?thesis
        by (simp add: requests_of_append)
    next
      assume "Http r rep \<in> set suf"
      from update_in_suffix [OF upd this] assms(3) show ?thesis by (simp add: update_kinds)
    qed
  qed
qed

lemma empty_main:
  "main ''v1.2.3'' ''PROJ'' ''Ready for Release'' scenario_env ''2024-05-01''
       (tracker (Content (JObj [(''id'', JStr ''10050''), (''name'', JStr ''v1.2.3'')]))
                (Content (JObj [(''issues'', JArr [])])) NoContent) =
     (Inr (),
      [Print Starting,
       Http (user_request scenario_config) (Content (JObj [(''key'', JStr ''jdoe'')])),
       Print (Creating ''v1.2.3'' ''PROJ''),
       Http (creation_request scenario_config ''2024-05-01'' [(''owner'', JStr ''jdoe'')])
            (Content (JObj [(''id'', JStr ''10050''), (''name'', JStr ''v1.2.3'')])),
       Print (Created (JStr ''v1.2.3'')),
       Http (search_request scenario_config) (Content (JObj [(''issues'', JArr [])])),
       Print (Found 0 ''Ready for Release'' ''PROJ''),
       Print Completed,
       Print (Summary ''v1.2.3'' 0)])"
  by (simp add: run_defs scenario_data_defs)

theorem empty_query_completes_witness:
  "is_query (search_request scenario_config) \<and>
   returns_no_issues (Content (JObj [(''issues'', JArr [])])) \<and>
   exit_code (fst (main ''v1.2.3'' ''PROJ'' ''Ready for Release'' scenario_env ''2024-05-01''
       (tracker (Content (JObj [(''id'', JStr ''10050''), (''name'', JStr ''v1.2.3'')]))
                (Content (JObj [(''issues'', JArr [])])) NoContent))) = 0 \<and>
   filter is_update (requests_of (snd (main ''v1.2.3'' ''PROJ'' ''Ready for Release'' scenario_env ''2024-05-01''
       (tracker (Content (JObj [(''id'', JStr ''10050''), (''name'', JStr ''v1.2.3'')]))
                (Content (JObj [(''issues'', JArr [])])) NoContent)))) = [] \<and>
   last (snd (main ''v1.2.3'' ''PROJ'' ''Ready for Release'' scenario_env ''2024-05-01''
       (tracker (Content (JObj [(''id'', JStr ''10050''), (''name'', JStr ''v1.2.3'')]))
                (Content (JObj [(''issues'', JArr [])])) NoContent))) = Print (Summary ''v1.2.3'' 0)"
proof -
  let ?rep = "Content (JObj [(''issues'', JArr [])])"
  have sent: "Http (search_request scenario_config) ?rep \<in> set
      [Print Starting,
       Http (user_request scenario_config) (Content (JObj [(''key'', JStr ''jdoe'')])),
       Print (Creating ''v1.2.3'' ''PROJ''),
       Http (creation_request scenario_config ''2024-05-01'' [(''owner'', JStr ''jdoe'')])
            (Content (JObj [(''id'', JStr ''10050''), (''name'', JStr ''v1.2.3'')])),
       Print (Created (JStr ''v1.2.3'')),
       Http (search_request scenario_config) ?rep,
       Print (Found 0 ''Ready for Release'' ''PROJ''),
       Print Completed,
       Print (Summary ''v1.2.3'' 0)]"
    by simp
  have kind: "is_query (search_request scenario_config)" by simp
  have none: "returns_no_issues ?rep" by (simp add: returns_no_issues_def reply_value_def)
  from empty_query_completes [OF empty_main sent kind none] kind none
  show ?thesis by (simp add: empty_main)
qed

section \<open>The summary count\<close>

lemma filter_all_updates: "list_all is_update rs \<Longrightarrow> filter is_update rs = rs"
  by (induction rs) auto

lemma no_skip_in_query_trace [simp]:
  "filter is_skip (query_trace cfg today srv owner kvs) = []"
  by (simp add: query_trace_def creation_trace_def is_skip_def)

text \<open>
  C9. After a run that ends normally, the count of the summary line is the number of issues
  the query returned: the updates sent plus the issues skipped because they had the release
  already. With a skipped issue the count is above the number of updates sent.
\<close>

theorem summary_counts_all_issues:
  assumes "main rname pname status env today srv = (Inr u, tr)"
  shows "\<exists>r rep v issues n.
           Http r rep \<in> set tr \<and> is_query r \<and> reply_value rep = Some v \<and>
           py_get v ''issues'' (JArr []) = Inr issues \<and> py_len issues = Inr n \<and>
           last tr = Print (Summary rname n) \<and>
           length (filter is_update (requests_of tr)) + length (filter is_skip tr) = n \<and>
           (0 < length (filter is_skip tr) \<longrightarrow> length (filter is_update (requests_of tr)) < n)"
  using assms
proof (cases rule: main_cases)
  case (started cfg)
  from started(2) show ?thesis
  proof (cases rule: run_cases)
    case (completed cu owner kvs rid resp issues xs lt)
    from completed(10) obtain suf where
      lt: "lt = (query_trace cfg today srv owner kvs @
          [Print (Found (length xs) (ticket_status cfg) (project_name cfg))]) @ suf"
      and upd: "list_all is_update (requests_of suf)"
      and cnt: "length (requests_of suf) + length (filter is_skip suf) = length xs"
      by (cases rule: loop_trace_quiet) blast
    have tr: "tr = query_trace cfg today srv owner kvs @
          [Print (Found (length xs) (ticket_status cfg) (project_name cfg))] @ suf @
          [Print Completed, Print (Summary rname (length xs))]"
      using completed(12) lt started(1) by simp
    have sent: "Http (search_request cfg) (search_reply cfg today srv owner) \<in> set tr"
      unfolding tr by (simp add: http_in_query_trace)
    have "filter is_update (requests_of tr) = requests_of suf"
      unfolding tr by (simp add: requests_of_append filter_all_updates [OF upd])
    moreover have "filter is_skip tr = filter is_skip suf"
      unfolding tr by (simp add: is_skip_def)
    ultimately have count: "length (filter is_update (requests_of tr)) + length (filter is_skip tr) = length xs"
      using cnt by simp
    have summary: "last tr = Print (Summary rname (length xs))"
      unfolding tr by simp
    from count have "0 < length (filter is_skip tr) \<longrightarrow> length (filter is_update (requests_of tr)) < length xs"
      by arith
    with sent completed(6,7,8) summary count show ?thesis
      by (intro exI [of _ "search_request cfg"] exI [of _ "search_reply cfg today srv owner"]
            exI [of _ resp] exI [of _ issues] exI [of _ "length xs"]) simp
  qed simp_all
qed simp

text \<open>A run over a ticket without the release and a ticket that has it already.\<close>

lemma rerun_main:
  "main ''v1.2.3'' ''PROJ'' ''Ready for Release'' scenario_env ''2024-05-01''
       (tracker (Content (JObj [(''id'', JStr ''10050''), (''name'', JStr ''v1.2.3'')]))
                (Content (JObj [(''issues'', JArr [scenario_issue1, tagged_issue])])) NoContent) =
     (Inr (),
      [Print Starting,
       Http (user_request scenario_config) (Content (JObj [(''key'', JStr ''jdoe'')])),
       Print (Creating ''v1.2.3'' ''PROJ''),
       Http (creation_request scenario_config ''2024-05-01'' [(''owner'', JStr ''jdoe'')])
            (Content (JObj [(''id'', JStr ''10050''), (''name'', JStr ''v1.2.3'')])),
       Print (Created (JStr ''v1.2.3'')),
       Http (search_request scenario_config)
            (Content (JObj [(''issues'', JArr [scenario_issue1, tagged_issue])])),
       Print (Found 2 ''Ready for Release'' ''PROJ''),
       Http (build_request scenario_config
               (Url ''https://your-jira-instance.atlassian.net'' (IssuePath (JStr ''PROJ-1'')))
               PUT None (Some (fix_versions_data [JStr ''10050''])))
            NoContent,
       Print (Added (JStr ''PROJ-1'')),
       Print (AlreadyHas (JStr ''PROJ-3'')),
       Print Completed,
       Print (Summary ''v1.2.3'' 2)])"
  by (simp add: run_defs scenario_data_defs)

theorem summary_counts_all_issues_witness:
  "fst (main ''v1.2.3'' ''PROJ'' ''Ready for Release'' scenario_env ''2024-05-01''
       (tracker (Content (JObj [(''id'', JStr ''10050''), (''name'', JStr ''v1.2.3'')]))
                (Content (JObj [(''issues'', JArr [scenario_issue1, tagged_issue])])) NoContent)) = Inr () \<and>
   last (snd (main ''v1.2.3'' ''PROJ'' ''Ready for Release'' scenario_env ''2024-05-01''
       (tracker (Content (JObj [(''id'', JStr ''10050''), (''name'', JStr ''v1.2.3'')]))
                (Content (JObj [(''issues'', JArr [scenario_issue1, tagged_issue])])) NoContent))) =
     Print (Summary ''v1.2.3'' 2) \<and>
   length (filter is_skip (snd (main ''v1.2.3'' ''PROJ'' ''Ready for Release'' scenario_env ''2024-05-01''
       (tracker (Content (JObj [(''id'', JStr ''10050''), (''name'', JStr ''v1.2.3'')]))
                (Content (JObj [(''issues'', JArr [scenario_issue1, tagged_issue])])) NoContent)))) = 1 \<and>
   length (filter is_update (requests_of (snd (main ''v1.2.3'' ''PROJ'' ''Ready for Release'' scenario_env ''2024-05-01''
       (tracker (Content (JObj [(''id'', JStr ''10050''), (''name'', JStr ''v1.2.3'')]))
                (Content (JObj [(''issues'', JArr [scenario_issue1, tagged_issue])])) NoContent))))) = 1"
proof -
  let ?tr = "snd (main ''v1.2.3'' ''PROJ'' ''Ready for Release'' scenario_env ''2024-05-01''
       (tracker (Content (JObj [(''id'', JStr ''10050''), (''name'', JStr ''v1.2.3'')]))
                (Content (JObj [(''issues'', JArr [scenario_issue1, tagged_issue])])) NoContent))"
  have run: "main ''v1.2.3'' ''PROJ'' ''Ready for Release'' scenario_env ''2024-05-01''
       (tracker (Content (JObj [(''id'', JStr ''10050''), (''name'', JStr ''v1.2.3'')]))
                (Content (JObj [(''issues'', JArr [scenario_issue1, tagged_issue])])) NoContent) = (Inr (), ?tr)"
    by (simp add: rerun_main)
  from summary_counts_all_issues [OF run] obtain n where
    summary: "last ?tr = Print (Summary ''v1.2.3'' n)" and
    count: "length (filter is_update (requests_of ?tr)) + length (filter is_skip ?tr) = n" and
    above: "0 < length (filter is_skip ?tr) \<longrightarrow> length (filter is_update (requests_of ?tr)) < n"
    by blast
  have skips: "length (filter is_skip ?tr) = 1"
    by (simp add: rerun_main is_skip_def)
  from summary have n: "n = 2" by (simp add: rerun_main)
  from skips count n have updates: "length (filter is_update (requests_of ?tr)) = 1" by simp
  have ok: "fst (main ''v1.2.3'' ''PROJ'' ''Ready for Release'' scenario_env ''2024-05-01''
       (tracker (Content (JObj [(''id'', JStr ''10050''), (''name'', JStr ''v1.2.3'')]))
                (Content (JObj [(''issues'', JArr [scenario_issue1, tagged_issue])])) NoContent)) = Inr ()"
    by (simp add: rerun_main)
  from ok summary n skips updates show ?thesis by simp
qed

section \<open>The body of the creation request\<close>

lemma creation_request_body:
  "body_field (creation_request cfg today owner) ''released'' = Some (JBool False)"
  "body_field (creation_request cfg today owner) ''userReleaseDate'' = Some (JStr today)"
  by (simp_all add: body_field_def creation_request_def build_request_def)

text \<open>
  C6, amended. Every release-creation request of a run has \<open>released\<close> false in its body, and
  its \<open>userReleaseDate\<close> is the date the system clock gives when the request is built.
\<close>

theorem creation_body_released_and_clock_date:
  assumes "main rname pname status env today srv = (out, tr)"
    and "r \<in> set (requests_of tr)"
    and "is_creation r"
  shows "body_field r ''released'' = Some (JBool False) \<and>
         body_field r ''userReleaseDate'' = Some (JStr today)"
  using assms(1)
proof (cases rule: main_cases)
  case no_credentials
  with assms(2) show ?thesis by simp
next
  case (started cfg)
  from started(2) show ?thesis
  proof (cases rule: run_cases)
    case (user_failed msgs)
    with assms(2,3) show ?thesis by (auto simp: requests_of_prints)
  next
    case (owner_raised cu e)
    with assms(2,3) show ?thesis by auto
  next
    case (creation_failed cu owner msgs)
    with assms(2,3) show ?thesis
      by (auto simp: requests_of_append requests_of_prints creation_request_body)
  next
    case (not_object cu owner rel)
    with assms(2,3) show ?thesis by (auto simp: creation_request_body)
  next
    case (no_release_id cu owner kvs)
    with assms(2,3) show ?thesis by (auto simp: requests_of_append creation_request_body)
  next
    case (query_failed cu owner kvs rid msgs)
    with assms(2,3) show ?thesis
      by (auto simp: requests_of_append requests_of_prints creation_request_body)
  next
    case (query_raised cu owner kvs rid resp e)
    with assms(2,3) show ?thesis by (auto simp: creation_request_body)
  next
    case (loop_aborted cu owner kvs rid resp issues xs a)
    from loop_aborted(10) obtain suf where
      tr: "tr = (query_trace cfg today srv owner kvs @
          [Print (Found (length xs) (ticket_status cfg) (project_name cfg))]) @ suf"
      and upd: "list_all is_update (requests_of suf)"
      by (cases rule: loop_trace_quiet) blast
    from assms(2) tr have "r \<in> set (requests_of (query_trace cfg today srv owner kvs)) \<or>
        r \<in> set (requests_of suf)"
      by (auto simp: requests_of_append)
    then show ?thesis
    proof
      assume "r \<in> set (requests_of (query_trace cfg today srv owner kvs))"
      with assms(3) show ?thesis by (auto simp: creation_request_body)
    next
      assume "r \<in> set (requests_of suf)"
      with upd have "is_update r" by (simp add: list_all_iff)
      with assms(3) show ?thesis by (simp add: update_kinds)
    qed
  next
    case (completed cu owner kvs rid resp issues xs lt)
    from completed(10) obtain suf where
      lt: "lt = (query_trace cfg today srv owner kvs @
          [Print (Found (length xs) (ticket_status cfg) (project_name cfg))]) @ suf"
      and upd: "list_all is_update (requests_of suf)"
      by (cases rule: loop_trace_quiet) blast
    from assms(2) lt completed(12) have "r \<in> set (requests_of (query_trace cfg today srv owner kvs)) \<or>
        r \<in> set (requests_of suf)"
      by (auto simp: requests_of_append)
    then show ?thesis
    proof
      assume "r \<in> set (requests_of (query_trace cfg today srv owner kvs))"
      with assms(3) show ?thesis by (auto simp: creation_request_body)
    next
      assume "r \<in> set (requests_of suf)"
      with upd have "is_update r" by (simp add: list_all_iff)
      with assms(3) show ?thesis by (simp add: update_kinds)
    qed
  qed
qed

theorem creation_body_released_and_clock_date_witness:
  "is_creation (creation_request scenario_config ''2024-05-01'' [(''owner'', JStr ''jdoe'')]) \<and>
   body_field (creation_request scenario_config ''2024-05-01'' [(''owner'', JStr ''jdoe'')]) ''released'' =
     Some (JBool False) \<and>
   body_field (creation_request scenario_config ''2024-05-01'' [(''owner'', JStr ''jdoe'')]) ''userReleaseDate'' =
     Some (JStr ''2024-05-01'')"
proof -
  let ?r = "creation_request scenario_config ''2024-05-01'' [(''owner'', JStr ''jdoe'')]"
  have sent: "?r \<in> set (requests_of
      [Print Starting,
       Http (user_request scenario_config) (Content (JObj [(''key'', JStr ''jdoe'')])),
       Print (Creating ''v1.2.3'' ''PROJ''),
       Http ?r (Content (JObj [(''name'', JStr ''v1.2.3'')])),
       Print (Created (JStr ''v1.2.3'')),
       Print ErrReleaseId])"
    by simp
  have kind: "is_creation ?r" by simp
  from creation_body_released_and_clock_date [OF idless_main sent kind] kind
  show ?thesis by simp
qed

text \<open>
  C6 as stated fails: with the same flags, the same environment and the same tracker, the
  \<open>userReleaseDate\<close> of the creation request changes with the clock.
\<close>

theorem release_date_not_user_supplied:
  "creation_dates (snd (main ''v1.2.3'' ''PROJ'' ''Ready for Release'' scenario_env ''2024-05-01'' scenario_server)) =
     [Some (JStr ''2024-05-01'')] \<and>
   creation_dates (snd (main ''v1.2.3'' ''PROJ'' ''Ready for Release'' scenario_env ''2024-12-24'' scenario_server)) =
     [Some (JStr ''2024-12-24'')] \<and>
   creation_dates (snd (main ''v1.2.3'' ''PROJ'' ''Ready for Release'' scenario_env ''2024-05-01'' scenario_server)) \<noteq>
   creation_dates (snd (main ''v1.2.3'' ''PROJ'' ''Ready for Release'' scenario_env ''2024-12-24'' scenario_server))"
  unfolding scenario_main
  by (simp add: creation_dates_def body_field_def is_creation_def is_update_def build_request_def)

end
